theory Spec2Isabelle
  imports Main "HOL-Library.Word"
begin

unbundle bit_operations_syntax

section \<open>Data model of the terminal engine (src/term/vt220.cpp)\<close>

text \<open>
  The class declaration (vt220.h) is not among the sources; the members below are the ones
  the member functions of vt220.cpp read and write, with the types their uses imply.
  C++ \<open>int\<close> is modelled as \<open>int\<close>; where an integer offset supplied from outside enters
  an addition the two's-complement wrap-around of a 32-bit \<open>int\<close> is written out with
  \<open>i32\<close>. \<open>uchar\<close> is \<open>8 word\<close> and \<open>uint\<close>/\<open>quint32\<close> is \<open>32 word\<close>.
\<close>

type_synonym uchar = "8 word"
type_synonym uint = "32 word"

definition i32 :: "int \<Rightarrow> int" where
  "i32 v = (v + 2 ^ 31) mod 2 ^ 32 - 2 ^ 31"

text \<open>
  Modelled from the spec: the cell type \<open>vtAttr\<close> is declared in the missing header. A cell
  holds the code point, the attached mark, the display width, the character-set slots, and
  the colours and style flags; the latter are kept together in \<open>att_sgr\<close>, which no
  function modelled here changes.
\<close>

record vtAttr =
  att_code :: uint
  att_mark :: uint
  att_width :: int
  att_charset :: nat
  att_gl :: nat
  att_gr :: nat
  att_sgr :: nat

text \<open>
  Modelled from the spec: the row type \<open>vtLine\<close> is declared in the missing header. It is
  used as a vector of cells (\<open>fill\<close>, \<open>resize\<close>, indexing) with the line flags
  double-width and double-height top/bottom; \<open>set_decswl\<close> and \<open>set_decshl\<close> clear them.
\<close>

datatype line_height = Single_height | Double_top | Double_bottom

record vtLine =
  cells :: "vtAttr list"
  decdwl :: bool
  decdhl :: line_height

record cursor =
  cur_x :: int
  cur_y :: int
  cur_newx :: int
  cur_phase :: int
  cur_on :: bool

datatype estate =
    ESnormal | ESesc | ESspc | ESperc | EShash
  | ESsetG0_vt200 | ESsetG0_vt500 | ESsetG1_vt200 | ESsetG1_vt500
  | ESsetG2_vt200 | ESsetG2_vt500 | ESsetG3_vt200 | ESsetG3_vt500
  | EScsi | ESgetargs | ESgotargs | ESosc | ESpalette | ESstring | ESfunckey

type_synonym cmapHash = "uchar \<rightharpoonup> uint"

record vt220 =
  m_backlog_max :: int
  m_backlog :: "vtLine list"
  m_screen :: "vtLine list"
  m_width :: int
  m_height :: int
  m_top :: int
  m_bottom :: int
  m_pal :: "(uchar \<times> uchar \<times> uchar) list"
  m_def :: vtAttr
  m_att :: vtAttr
  m_att_saved :: vtAttr
  m_cursor :: cursor
  m_cursor_saved :: cursor
  m_csi_args :: "int list"
  m_tabstop :: "bool list"
  m_state :: estate
  m_deccolm :: int
  m_ques :: bool
  m_togmeta :: bool
  m_deccm :: bool
  m_decim :: bool
  m_decom :: bool
  m_deccr :: bool
  m_decawm :: bool
  m_dspctrl :: bool
  m_s8c1t :: bool
  m_ansi :: int
  m_cursor_type :: int
  m_cc_mask :: int
  m_cc_save :: int
  m_string :: "uchar list"
  m_gmaps :: "cmapHash list"
  m_trans :: cmapHash
  m_shift :: int
  m_utf_mode :: bool
  m_utf_more :: int
  m_utf_code :: uint
  m_utf_code_min :: uint

text \<open>
  An index outside a Qt container is an assertion failure (undefined behaviour in a release
  build): \<open>OutOfRange\<close>. \<open>NotModelled\<close> marks the branches of \<open>putch\<close> whose callee is not
  part of this development (SGR, mode set/reset, device reports, character-set designation,
  full reset); nothing is claimed about them.
\<close>

datatype error = OutOfRange | NotModelled

definition bind_res :: "error + 'a \<Rightarrow> ('a \<Rightarrow> error + 'b) \<Rightarrow> error + 'b" where
  "bind_res r f = (case r of Inl e \<Rightarrow> Inl e | Inr v \<Rightarrow> f v)"

definition at_int :: "'a list \<Rightarrow> int \<Rightarrow> error + 'a" where
  "at_int xs i = (if 0 \<le> i \<and> i < int (length xs) then Inr (xs ! nat i) else Inl OutOfRange)"

definition set_int :: "'a list \<Rightarrow> int \<Rightarrow> 'a \<Rightarrow> error + 'a list" where
  "set_int xs i v = (if 0 \<le> i \<and> i < int (length xs) then Inr (xs[nat i := v]) else Inl OutOfRange)"

text \<open>\<open>QVector::fill(value, size)\<close>: resize to \<open>size\<close> unless it is negative, then assign everywhere.\<close>

definition qfill :: "'a \<Rightarrow> int \<Rightarrow> 'a list \<Rightarrow> 'a list" where
  "qfill v n xs = replicate (if n < 0 then length xs else nat n) v"

text \<open>\<open>qBound(min, val, max)\<close> of QtGlobal: \<open>qMax(min, qMin(max, val))\<close>.\<close>

definition qBound :: "int \<Rightarrow> int \<Rightarrow> int \<Rightarrow> int" where
  "qBound lo v hi = max lo (min hi v)"

section \<open>Cells, cursor and scrolling\<close>

text \<open>The blank every erase and scroll writes: the current attributes with code 32 and no mark.\<close>

definition space_of :: "vtAttr \<Rightarrow> uint \<Rightarrow> vtAttr" where
  "space_of a c = a\<lparr>att_code := c, att_mark := 0\<rparr>"

text \<open>
  \<open>add_backlog\<close> (lines 287-297). The widget resize that follows is presentation and is
  not modelled.
\<close>

definition add_backlog :: "vtLine \<Rightarrow> vt220 \<Rightarrow> vt220" where
  "add_backlog line s =
     (let b = m_backlog s @ [line]
      in s\<lparr>m_backlog := (if int (length b) > m_backlog_max s then tl b else b)\<rparr>)"

text \<open>
  \<open>outch\<close> (lines 305-320). The repaint rectangle passed to \<open>update\<close> is presentation;
  here and below the reads that only feed it are left out.
\<close>

definition outch :: "int \<Rightarrow> int \<Rightarrow> vtAttr \<Rightarrow> vt220 \<Rightarrow> error + vt220" where
  "outch x y pa s =
     (if x < 0 \<or> x \<ge> m_width s then Inr s
      else if y < 0 \<or> y \<ge> m_height s then Inr s
      else bind_res (at_int (m_screen s) y) (\<lambda>l.
           bind_res (set_int (cells l) x pa) (\<lambda>cs.
           bind_res (set_int (m_screen s) y (l\<lparr>cells := cs\<rparr>)) (\<lambda>scr.
           Inr (s\<lparr>m_screen := scr\<rparr>)))))"

text \<open>\<open>set_cursor\<close> (lines 355-386).\<close>

definition set_cursor :: "bool \<Rightarrow> vt220 \<Rightarrow> vt220" where
  "set_cursor on s =
     (if cur_y (m_cursor s) < 0 \<or> cur_y (m_cursor s) \<ge> m_height s then s
      else if cur_newx (m_cursor s) < 0 \<or> cur_newx (m_cursor s) \<ge> m_width s then s
      else s\<lparr>m_cursor := (m_cursor s)\<lparr>cur_on := (if \<not> m_deccm s then False else on)\<rparr>\<rparr>)"

text \<open>\<open>set_newx\<close> (lines 392-418).\<close>

definition set_newx :: "int \<Rightarrow> vt220 \<Rightarrow> vt220" where
  "set_newx newx s =
     (let s1 = set_cursor False s;
          s2 = s1\<lparr>m_cursor := (m_cursor s1)\<lparr>cur_newx := newx\<rparr>\<rparr>
      in if cur_y (m_cursor s2) < 0 \<or> cur_y (m_cursor s2) \<ge> m_height s2 then s2
         else if cur_newx (m_cursor s2) < 0 \<or> cur_newx (m_cursor s2) \<ge> m_width s2 then s2
         else set_cursor (cur_on (m_cursor s2)) s2)"

text \<open>The row a scroll brings in: flags cleared, \<open>m_width\<close> blanks with the current attributes.\<close>

definition blank_fill :: "vt220 \<Rightarrow> vtLine \<Rightarrow> vtLine" where
  "blank_fill s pl =
     pl\<lparr>decdhl := Single_height, decdwl := False,
        cells := qfill (space_of (m_att s) 32) (m_width s) (cells pl)\<rparr>"

text \<open>The loop of \<open>vt_scroll_up\<close>: \<open>for (y = m_top; y < m_bottom - 1; y++) m_screen[y] = m_screen[y+1]\<close>.\<close>

function scroll_up_rows :: "int \<Rightarrow> int \<Rightarrow> vtLine list \<Rightarrow> error + vtLine list" where
  "scroll_up_rows y b scr =
     (if y < b - 1
      then bind_res (at_int scr (y + 1)) (\<lambda>l.
           bind_res (set_int scr y l) (\<lambda>scr'. scroll_up_rows (y + 1) b scr'))
      else Inr scr)"
  by pat_completeness auto
termination
  by (relation "measure (\<lambda>(y, b, scr). nat (b - 1 - y))") auto

declare scroll_up_rows.simps [simp del]

text \<open>The loop of \<open>vt_scroll_dn\<close>: \<open>for (y = m_bottom - 1; y > m_top; y--) m_screen[y] = m_screen[y-1]\<close>.\<close>

function scroll_dn_rows :: "int \<Rightarrow> int \<Rightarrow> vtLine list \<Rightarrow> error + vtLine list" where
  "scroll_dn_rows y t scr =
     (if y > t
      then bind_res (at_int scr (y - 1)) (\<lambda>l.
           bind_res (set_int scr y l) (\<lambda>scr'. scroll_dn_rows (y - 1) t scr'))
      else Inr scr)"
  by pat_completeness auto
termination
  by (relation "measure (\<lambda>(y, t, scr). nat (y - t))") auto

declare scroll_dn_rows.simps [simp del]

text \<open>\<open>vt_scroll_dn\<close> (lines 423-444).\<close>

definition vt_scroll_dn :: "vt220 \<Rightarrow> error + vt220" where
  "vt_scroll_dn s =
     bind_res (scroll_dn_rows (m_bottom s - 1) (m_top s) (m_screen s)) (\<lambda>scr.
     bind_res (at_int scr (m_top s)) (\<lambda>pl.
     bind_res (set_int scr (m_top s) (blank_fill s pl)) (\<lambda>scr'.
     Inr (s\<lparr>m_screen := scr'\<rparr>))))"

text \<open>\<open>vt_scroll_up\<close> (lines 449-473).\<close>

definition vt_scroll_up :: "vt220 \<Rightarrow> error + vt220" where
  "vt_scroll_up s =
     bind_res (if m_top s = 0 \<and> m_height s = m_bottom s
               then bind_res (at_int (m_screen s) 0) (\<lambda>l. Inr (add_backlog l s))
               else Inr s) (\<lambda>s1.
     bind_res (scroll_up_rows (m_top s1) (m_bottom s1) (m_screen s1)) (\<lambda>scr.
     bind_res (at_int scr (m_bottom s1 - 1)) (\<lambda>pl.
     bind_res (set_int scr (m_bottom s1 - 1) (blank_fill s1 pl)) (\<lambda>scr'.
     Inr (s1\<lparr>m_screen := scr'\<rparr>)))))"

text \<open>\<open>vt_CR\<close> (lines 635-643).\<close>

definition vt_CR :: "vt220 \<Rightarrow> vt220" where
  "vt_CR s =
     (let was_on = cur_on (m_cursor s);
          s1 = set_newx 0 (set_cursor False s);
          s2 = s1\<lparr>m_cursor := (m_cursor s1)\<lparr>cur_x := cur_newx (m_cursor s1)\<rparr>\<rparr>
      in set_cursor was_on s2)"

text \<open>\<open>vt_LF\<close> (lines 587-598).\<close>

definition vt_LF :: "vt220 \<Rightarrow> error + vt220" where
  "vt_LF s =
     (let was_on = cur_on (m_cursor s);
          s1 = set_cursor False s
      in bind_res (if cur_y (m_cursor s1) + 1 \<ge> m_bottom s1 then vt_scroll_up s1
                   else if cur_y (m_cursor s1) < m_height s1 - 1
                   then Inr (s1\<lparr>m_cursor := (m_cursor s1)\<lparr>cur_y := cur_y (m_cursor s1) + 1\<rparr>\<rparr>)
                   else Inr s1) (\<lambda>s2.
         Inr (set_cursor was_on s2)))"

text \<open>\<open>vt_RI\<close> (lines 530-542).\<close>

definition vt_RI :: "vt220 \<Rightarrow> error + vt220" where
  "vt_RI s =
     (let was_on = cur_on (m_cursor s);
          s1 = set_cursor False s
      in bind_res (if cur_y (m_cursor s1) \<le> m_top s1
                   then bind_res (vt_scroll_dn s1) (\<lambda>s'.
                        Inr (s'\<lparr>m_cursor := (m_cursor s')\<lparr>cur_y := m_top s'\<rparr>\<rparr>))
                   else if cur_y (m_cursor s1) > 0
                   then Inr (s1\<lparr>m_cursor := (m_cursor s1)\<lparr>cur_y := cur_y (m_cursor s1) - 1\<rparr>\<rparr>)
                   else Inr s1) (\<lambda>s2.
         Inr (set_cursor was_on s2)))"

text \<open>\<open>vt_IND\<close> (lines 547-559).\<close>

definition vt_IND :: "vt220 \<Rightarrow> error + vt220" where
  "vt_IND s =
     (let was_on = cur_on (m_cursor s);
          s1 = set_cursor False s
      in bind_res (if cur_y (m_cursor s1) + 1 \<ge> m_bottom s1
                   then bind_res (vt_scroll_up s1) (\<lambda>s'.
                        Inr (s'\<lparr>m_cursor := (m_cursor s')\<lparr>cur_y := m_bottom s' - 1\<rparr>\<rparr>))
                   else if cur_y (m_cursor s1) < m_height s1 - 1
                   then Inr (s1\<lparr>m_cursor := (m_cursor s1)\<lparr>cur_y := cur_y (m_cursor s1) + 1\<rparr>\<rparr>)
                   else Inr s1) (\<lambda>s2.
         Inr (set_cursor was_on s2)))"

text \<open>\<open>vt_NEL\<close> (lines 564-569).\<close>

definition vt_NEL :: "vt220 \<Rightarrow> error + vt220" where
  "vt_NEL s = vt_LF (vt_CR s)"

text \<open>\<open>vt_CUP\<close> (lines 764-785).\<close>

definition vt_CUP :: "int \<Rightarrow> int \<Rightarrow> vt220 \<Rightarrow> vt220" where
  "vt_CUP x y s =
     (let s1 = (if x < 0
                then (let s' = set_newx 0 s in s'\<lparr>m_cursor := (m_cursor s')\<lparr>cur_x := 0\<rparr>\<rparr>)
                else (let s' = (if x \<ge> m_width s then set_newx (m_width s - 1) s else set_newx x s)
                      in s'\<lparr>m_cursor := (m_cursor s')\<lparr>cur_x := cur_newx (m_cursor s')\<rparr>\<rparr>));
          miny = (if m_decom s1 then m_top s1 else 0);
          maxy = (if m_decom s1 then m_bottom s1 - 1 else m_height s1 - 1)
      in s1\<lparr>m_cursor := (m_cursor s1)\<lparr>cur_y := qBound miny y maxy\<rparr>\<rparr>)"

text \<open>\<open>vt_CUU\<close>, \<open>vt_CUD\<close>, \<open>vt_CUF\<close>, \<open>vt_CUB\<close>, \<open>vt_CHA\<close> (lines 791-842).\<close>

definition vt_CUU :: "int \<Rightarrow> vt220 \<Rightarrow> vt220" where
  "vt_CUU n s =
     (let y = i32 (cur_y (m_cursor s) - n);
          s1 = s\<lparr>m_cursor := (m_cursor s)\<lparr>cur_x := cur_newx (m_cursor s)\<rparr>\<rparr>
      in vt_CUP (cur_x (m_cursor s1)) y s1)"

definition vt_CUD :: "int \<Rightarrow> vt220 \<Rightarrow> vt220" where
  "vt_CUD n s =
     (let y = i32 (cur_y (m_cursor s) + n);
          s1 = s\<lparr>m_cursor := (m_cursor s)\<lparr>cur_x := cur_newx (m_cursor s)\<rparr>\<rparr>
      in vt_CUP (cur_x (m_cursor s1)) y s1)"

definition vt_CUF :: "int \<Rightarrow> vt220 \<Rightarrow> vt220" where
  "vt_CUF n s = vt_CUP (i32 (cur_newx (m_cursor s) + n)) (cur_y (m_cursor s)) s"

definition vt_CUB :: "int \<Rightarrow> vt220 \<Rightarrow> vt220" where
  "vt_CUB n s = vt_CUP (i32 (cur_newx (m_cursor s) - n)) (cur_y (m_cursor s)) s"

definition vt_CHA :: "int \<Rightarrow> vt220 \<Rightarrow> vt220" where
  "vt_CHA n s = vt_CUP n (cur_y (m_cursor s)) s"

text \<open>
  \<open>vt_CNL\<close>, \<open>vt_CPL\<close> (lines 848-864): \<open>while (n-- > 0)\<close> runs the body \<open>n\<close> times for a
  positive \<open>n\<close> and never otherwise.
\<close>

fun repeat_res :: "nat \<Rightarrow> ('s \<Rightarrow> error + 's) \<Rightarrow> 's \<Rightarrow> error + 's" where
  "repeat_res 0 f s = Inr s"
| "repeat_res (Suc k) f s = bind_res (f s) (repeat_res k f)"

definition vt_CNL :: "int \<Rightarrow> vt220 \<Rightarrow> error + vt220" where
  "vt_CNL n s = repeat_res (nat n) vt_NEL s"

definition vt_CPL :: "int \<Rightarrow> vt220 \<Rightarrow> error + vt220" where
  "vt_CPL n s = repeat_res (nat n) vt_RI s"

text \<open>\<open>vt_CUA\<close> (lines 882-886).\<close>

definition vt_CUA :: "int \<Rightarrow> int \<Rightarrow> vt220 \<Rightarrow> vt220" where
  "vt_CUA x y s = vt_CUP x (if m_decom s then i32 (m_top s + y) else y) s"

text \<open>
  The loop of \<open>vt_ECH\<close>:
  \<open>for (x = m_cursor.x; x < m_cursor.x + n && x < m_width; x++) outch(x, m_cursor.y, space)\<close>.
\<close>

function ech_loop :: "int \<Rightarrow> int \<Rightarrow> vtAttr \<Rightarrow> vt220 \<Rightarrow> error + vt220" where
  "ech_loop x n space s =
     (if x < i32 (cur_x (m_cursor s) + n) \<and> x < m_width s
      then (case outch x (cur_y (m_cursor s)) space s of
              Inl e \<Rightarrow> Inl e
            | Inr s' \<Rightarrow> ech_loop (x + 1) n space s')
      else Inr s)"
  by pat_completeness auto
termination
  by (relation "measure (\<lambda>(x, n, space, s). nat (m_width s - x))")
     (auto simp: outch_def bind_res_def at_int_def set_int_def split: if_splits)

declare ech_loop.simps [simp del]

text \<open>\<open>vt_ECH\<close> (lines 1154-1168).\<close>

definition vt_ECH :: "int \<Rightarrow> vt220 \<Rightarrow> error + vt220" where
  "vt_ECH n s =
     (let s1 = s\<lparr>m_cursor := (m_cursor s)\<lparr>cur_x := cur_newx (m_cursor s)\<rparr>\<rparr>;
          space = space_of (m_att s1) 32
      in bind_res (outch (m_width s1 - 1) (cur_y (m_cursor s1)) space s1) (\<lambda>s2.
         ech_loop (cur_x (m_cursor s2)) n space s2))"

section \<open>Sequences of cursor-movement commands\<close>





text \<open>
  The clamps the specification names: the column to \<open>[0, columns - 1]\<close>, the row to
  \<open>[top, bottom - 1]\<close> in origin mode and to \<open>[0, rows - 1]\<close> otherwise.
\<close>

definition clamp_col :: "vt220 \<Rightarrow> int \<Rightarrow> int" where
  "clamp_col s x = qBound 0 x (m_width s - 1)"

definition clamp_row :: "vt220 \<Rightarrow> int \<Rightarrow> int" where
  "clamp_row s y =
     (if m_decom s then qBound (m_top s) y (m_bottom s - 1) else qBound 0 y (m_height s - 1))"



section \<open>Resizing and tab stops\<close>

text \<open>
  Modelled from the spec: a default-constructed cell, which \<open>QVector::resize\<close> puts into the
  new positions of a row; the constructor of \<open>vtAttr\<close> is in the missing header. On a row of
  \<open>m_width\<close> cells \<open>term_set_size\<close> overwrites every such cell before it returns.
\<close>

definition vtAttr_default :: vtAttr where
  "vtAttr_default = \<lparr>att_code = 0, att_mark = 0, att_width = 0, att_charset = 0,
                     att_gl = 0, att_gr = 0, att_sgr = 0\<rparr>"

text \<open>\<open>line.resize(width)\<close>; a negative size is outside the contract of \<open>QVector\<close>.\<close>

definition resize_cells :: "int \<Rightarrow> vtAttr list \<Rightarrow> error + vtAttr list" where
  "resize_cells w cs =
     (if w < 0 then Inl OutOfRange
      else Inr (take (nat w) cs @ replicate (nat w - length cs) vtAttr_default))"

text \<open>\<open>for (int x = m_width; x < width; x++) line[x] = space\<close>.\<close>

function pad_loop :: "int \<Rightarrow> int \<Rightarrow> vtAttr \<Rightarrow> vtAttr list \<Rightarrow> error + vtAttr list" where
  "pad_loop x w space line =
     (if x < w
      then (case set_int line x space of Inl e \<Rightarrow> Inl e | Inr l \<Rightarrow> pad_loop (x + 1) w space l)
      else Inr line)"
  by pat_completeness auto
termination
  by (relation "measure (\<lambda>(x, w, space, line). nat (w - x))") auto

declare pad_loop.simps [simp del]

text \<open>The body of the two row loops of \<open>term_set_size\<close> (lines 2058-2081).\<close>

definition widen_line :: "int \<Rightarrow> int \<Rightarrow> vtLine \<Rightarrow> error + vtLine" where
  "widen_line width old_width line =
     bind_res (resize_cells width (cells line)) (\<lambda>cs.
       if width > old_width
       then bind_res (at_int cs 0) (\<lambda>c0.
            bind_res (pad_loop old_width width (space_of c0 32) cs) (\<lambda>cs'.
            Inr (line\<lparr>cells := cs'\<rparr>)))
       else Inr (line\<lparr>cells := cs\<rparr>))"

text \<open>\<open>for (int y = 0; y < count; y++) { vtLine& line = rows[y]; ... }\<close>.\<close>

function resize_rows :: "int \<Rightarrow> int \<Rightarrow> int \<Rightarrow> int \<Rightarrow> vtLine list \<Rightarrow> error + vtLine list" where
  "resize_rows y count width old_width rows =
     (if y < count
      then (case at_int rows y of
              Inl e \<Rightarrow> Inl e
            | Inr line \<Rightarrow>
               (case widen_line width old_width line of
                  Inl e \<Rightarrow> Inl e
                | Inr line' \<Rightarrow> resize_rows (y + 1) count width old_width (rows[nat y := line'])))
      else Inr rows)"
  by pat_completeness auto
termination
  by (relation "measure (\<lambda>(y, count, width, old_width, rows). nat (count - y))") auto

declare resize_rows.simps [simp del]

text \<open>
  \<open>for (int y = 0; y < m_height - height; y++) add_backlog(m_screen.takeFirst())\<close>;
  \<open>takeFirst\<close> of an empty list is outside the contract of \<open>QList\<close>.
\<close>

function shrink_rows :: "int \<Rightarrow> int \<Rightarrow> vt220 \<Rightarrow> error + vt220" where
  "shrink_rows y height s =
     (if y < m_height s - height
      then (case m_screen s of
              [] \<Rightarrow> Inl OutOfRange
            | l # rest \<Rightarrow> shrink_rows (y + 1) height (add_backlog l (s\<lparr>m_screen := rest\<rparr>)))
      else Inr s)"
  by pat_completeness auto
termination
  by (relation "measure (\<lambda>(y, height, s). nat (m_height s - height - y))")
     (auto simp: add_backlog_def Let_def)

declare shrink_rows.simps [simp del]

text \<open>
  \<open>while (height > m_height && !m_backlog.isEmpty())
     { m_screen.insert(0, m_backlog.takeLast()); m_height++; }\<close>
\<close>

function grow_rows :: "int \<Rightarrow> vt220 \<Rightarrow> vt220" where
  "grow_rows height s =
     (if height > m_height s \<and> m_backlog s \<noteq> []
      then grow_rows height
             (s\<lparr>m_screen := last (m_backlog s) # m_screen s,
                m_backlog := butlast (m_backlog s),
                m_height := m_height s + 1\<rparr>)
      else s)"
  by pat_completeness auto
termination
  by (relation "measure (\<lambda>(height, s). nat (height - m_height s))") auto

declare grow_rows.simps [simp del]

text \<open>
  Modelled from the spec: \<open>vtLine(width, m_def)\<close>, a row of \<open>width\<close> copies of the cell with
  the line flags clear; the constructor is in the missing header.
\<close>

definition vtLine_new :: "int \<Rightarrow> vtAttr \<Rightarrow> vtLine" where
  "vtLine_new width a = \<lparr>cells = replicate (nat width) a, decdwl = False, decdhl = Single_height\<rparr>"

text \<open>
  \<open>term_set_size\<close> (lines 2052-2099). The last loop appends \<open>height - m_height\<close> new rows
  when that is positive; constructing a row of negative width is outside the contract of
  \<open>QVector\<close>.
\<close>

definition term_set_size :: "int \<Rightarrow> int \<Rightarrow> vt220 \<Rightarrow> error + vt220" where
  "term_set_size width0 height0 s =
     (let width = (if width0 \<le> 0 then m_deccolm s else width0);
          height = (if height0 \<le> 0 then 25 else height0)
      in bind_res (resize_rows 0 (m_height s) width (m_width s) (m_screen s)) (\<lambda>scr.
         bind_res (resize_rows 0 (int (length (m_backlog s))) width (m_width s) (m_backlog s)) (\<lambda>bl.
         bind_res (let s1 = s\<lparr>m_screen := scr, m_backlog := bl\<rparr>
                   in if height < m_height s1 then shrink_rows 0 height s1 else Inr s1) (\<lambda>s2.
         let s3 = grow_rows height s2
         in if m_height s3 < height \<and> width < 0 then Inl OutOfRange
            else Inr (s3\<lparr>m_screen := m_screen s3
                                      @ replicate (nat (height - m_height s3)) (vtLine_new width (m_def s3)),
                         m_deccolm := width, m_width := width, m_height := height,
                         m_top := 0, m_bottom := height\<rparr>)))))"

text \<open>
  \<open>term_set_columns\<close> and \<open>term_set_rows\<close> (lines 2101-2115).
\<close>

definition term_set_columns :: "int \<Rightarrow> vt220 \<Rightarrow> error + vt220" where
  "term_set_columns width0 s =
     (let width = (if width0 \<le> 0 then m_deccolm s else width0)
      in bind_res (term_set_size width (m_height s) s) (\<lambda>s'.
         Inr (set_newx (cur_newx (m_cursor s')) s')))"

definition term_set_rows :: "int \<Rightarrow> vt220 \<Rightarrow> error + vt220" where
  "term_set_rows height s =
     (if height \<le> 0 then Inr s
      else bind_res (term_set_size (m_width s) height s) (\<lambda>s'.
           Inr (set_newx (cur_newx (m_cursor s')) s')))"

text \<open>The loop of \<open>vt_tabstop_reset\<close>: \<open>for (int i = 8; i < 256; i += 8) m_tabstop[i] = true\<close>.\<close>

function tabstop_loop :: "int \<Rightarrow> bool list \<Rightarrow> error + bool list" where
  "tabstop_loop i ts =
     (if i < 256
      then (case set_int ts i True of Inl e \<Rightarrow> Inl e | Inr ts' \<Rightarrow> tabstop_loop (i + 8) ts')
      else Inr ts)"
  by pat_completeness auto
termination
  by (relation "measure (\<lambda>(i, ts). nat (256 - i))") auto

declare tabstop_loop.simps [simp del]

text \<open>\<open>vt_tabstop_reset\<close> (lines 1609-1615); \<open>QBitArray::fill(false, 256)\<close> resizes to 256 bits.\<close>

definition vt_tabstop_reset :: "vt220 \<Rightarrow> error + vt220" where
  "vt_tabstop_reset s =
     bind_res (tabstop_loop 8 (qfill False 256 (m_tabstop s))) (\<lambda>ts. Inr (s\<lparr>m_tabstop := ts\<rparr>))"

text \<open>\<open>vt_HTS\<close> (lines 574-582): set the stop at the pending column, if the bitset has it.\<close>

definition vt_HTS :: "vt220 \<Rightarrow> error + vt220" where
  "vt_HTS s =
     (if cur_newx (m_cursor s) < int (length (m_tabstop s))
      then bind_res (set_int (m_tabstop s) (cur_newx (m_cursor s)) True) (\<lambda>ts.
           Inr (s\<lparr>m_tabstop := ts\<rparr>))
      else Inr s)"

text \<open>
  The tab-clear branch of the CSI dispatch (final byte \<open>g\<close>, lines 2826-2842) for the first
  parameter \<open>p\<close>: 0 clears the stop at the pending column, 3 clears all stops.
\<close>

definition csi_TBC :: "int \<Rightarrow> vt220 \<Rightarrow> error + vt220" where
  "csi_TBC p s =
     (if p = 0
      then bind_res (set_int (m_tabstop s) (cur_newx (m_cursor s)) False) (\<lambda>ts.
           Inr (s\<lparr>m_tabstop := ts\<rparr>))
      else if p = 3 then Inr (s\<lparr>m_tabstop := qfill False 256 (m_tabstop s)\<rparr>)
      else Inr s)"

text \<open>The dimensions an operation ends with, if it returns.\<close>

definition result_dims :: "error + vt220 \<Rightarrow> (int \<times> int) option" where
  "result_dims r = (case r of Inl e \<Rightarrow> None | Inr s \<Rightarrow> Some (m_width s, m_height s))"


section \<open>Controls, erasing, inserting and deleting\<close>

text \<open>\<open>vt_BS\<close> (lines 478-489).\<close>

definition vt_BS :: "vt220 \<Rightarrow> vt220" where
  "vt_BS s =
     (let was_on = cur_on (m_cursor s);
          s1 = set_cursor False s;
          s2 = s1\<lparr>m_cursor := (m_cursor s1)\<lparr>cur_x := cur_newx (m_cursor s1)\<rparr>\<rparr>;
          s3 = (if cur_x (m_cursor s2) > 0 then set_newx (cur_x (m_cursor s2) - 1) s2 else s2);
          s4 = s3\<lparr>m_cursor := (m_cursor s3)\<lparr>cur_x := cur_newx (m_cursor s3)\<rparr>\<rparr>
      in set_cursor was_on s4)"

text \<open>
  The loop of \<open>vt_TAB\<close>: write a blank, step the pending column, stop at the right edge,
  past the end of the tab-stop bitset, or on a tab stop.
\<close>

function tab_loop :: "vtAttr \<Rightarrow> vt220 \<Rightarrow> error + vt220" where
  "tab_loop space s =
     (if cur_newx (m_cursor s) < m_width s - 1
      then (case outch (cur_newx (m_cursor s)) (cur_y (m_cursor s)) space s of
              Inl e \<Rightarrow> Inl e
            | Inr s1 \<Rightarrow>
               (let s2 = s1\<lparr>m_cursor := (m_cursor s1)\<lparr>cur_newx := cur_newx (m_cursor s1) + 1\<rparr>\<rparr>
                in if cur_newx (m_cursor s2) \<ge> int (length (m_tabstop s2)) then Inr s2
                   else (case at_int (m_tabstop s2) (cur_newx (m_cursor s2)) of
                           Inl e \<Rightarrow> Inl e
                         | Inr stop \<Rightarrow> if stop then Inr s2 else tab_loop space s2)))
      else Inr s)"
  by pat_completeness auto
termination
  by (relation "measure (\<lambda>(space, s). nat (m_width s - cur_newx (m_cursor s)))")
     (auto simp: outch_def bind_res_def at_int_def set_int_def split: if_splits)

declare tab_loop.simps [simp del]

text \<open>\<open>vt_TAB\<close> (lines 494-525).\<close>

definition vt_TAB :: "vt220 \<Rightarrow> error + vt220" where
  "vt_TAB s =
     bind_res (if cur_newx (m_cursor s) \<ge> m_width s
               then (if m_decawm s then vt_LF (vt_CR s)
                     else Inr (s\<lparr>m_cursor := (m_cursor s)\<lparr>cur_newx := m_width s\<rparr>\<rparr>))
               else Inr s) (\<lambda>s1.
       if cur_newx (m_cursor s1) \<ge> m_width s1 then Inr s1
       else (let s2 = s1\<lparr>m_cursor := (m_cursor s1)\<lparr>cur_x := cur_newx (m_cursor s1)\<rparr>\<rparr>
             in bind_res (tab_loop (space_of (m_att s2) 32) s2) (\<lambda>s3.
                Inr (set_newx (cur_newx (m_cursor s3)) s3))))"

text \<open>\<open>vt_VT\<close> (lines 603-614).\<close>

definition vt_VT :: "vt220 \<Rightarrow> error + vt220" where
  "vt_VT s =
     (let was_on = cur_on (m_cursor s);
          s1 = set_cursor False s
      in bind_res (if cur_y (m_cursor s1) = m_top s1 then vt_scroll_dn s1
                   else if cur_y (m_cursor s1) > 0
                   then Inr (s1\<lparr>m_cursor := (m_cursor s1)\<lparr>cur_y := cur_y (m_cursor s1) - 1\<rparr>\<rparr>)
                   else Inr s1) (\<lambda>s2.
         Inr (set_cursor was_on s2)))"

text \<open>\<open>vt_FF\<close> (lines 619-630): \<open>m_height\<close> upward scrolls.\<close>

definition vt_FF :: "vt220 \<Rightarrow> error + vt220" where
  "vt_FF s =
     (let was_on = cur_on (m_cursor s);
          s1 = set_cursor False s
      in bind_res (repeat_res (nat (m_height s1)) vt_scroll_up s1) (\<lambda>s2.
         Inr (set_cursor was_on (s2\<lparr>m_cursor := (m_cursor s2)\<lparr>cur_y := m_bottom s2 - 1\<rparr>\<rparr>))))"

text \<open>
  The locking and single shifts (lines 648-749). \<open>m_gmaps\<close> has the four entries G0-G3; an
  index beyond them is outside the vector.
\<close>

definition select_trans :: "nat \<Rightarrow> vt220 \<Rightarrow> error + vt220" where
  "select_trans g s = bind_res (at_int (m_gmaps s) (int g)) (\<lambda>m. Inr (s\<lparr>m_trans := m\<rparr>))"

definition vt_LS :: "nat \<Rightarrow> bool \<Rightarrow> vt220 \<Rightarrow> error + vt220" where
  "vt_LS g dsp s =
     (let a = (m_att s)\<lparr>att_gl := g\<rparr>;
          s1 = s\<lparr>m_att := a\<lparr>att_charset := att_gl a\<rparr>, m_dspctrl := dsp\<rparr>
      in select_trans (att_charset (m_att s1)) s1)"

definition vt_LS0 :: "vt220 \<Rightarrow> error + vt220" where
  "vt_LS0 s = vt_LS 0 False s"

definition vt_LS1 :: "vt220 \<Rightarrow> error + vt220" where
  "vt_LS1 s = vt_LS 1 True s"

definition vt_LS2 :: "vt220 \<Rightarrow> error + vt220" where
  "vt_LS2 s = vt_LS 2 True s"

definition vt_LS3 :: "vt220 \<Rightarrow> error + vt220" where
  "vt_LS3 s = vt_LS 3 True s"

definition vt_LSR :: "nat \<Rightarrow> vt220 \<Rightarrow> vt220" where
  "vt_LSR g s =
     (let a = (m_att s)\<lparr>att_gr := g\<rparr>
      in s\<lparr>m_att := a\<lparr>att_charset := att_gr a\<rparr>, m_dspctrl := True\<rparr>)"

definition vt_SS :: "nat \<Rightarrow> vt220 \<Rightarrow> error + vt220" where
  "vt_SS g s =
     (let s1 = s\<lparr>m_shift := int (att_charset (m_att s)), m_att := (m_att s)\<lparr>att_charset := g\<rparr>\<rparr>
      in bind_res (select_trans (att_charset (m_att s1)) s1) (\<lambda>s2. Inr (s2\<lparr>m_dspctrl := True\<rparr>)))"

text \<open>\<open>save\<close> and \<open>restore\<close> (lines 2125-2138).\<close>

definition save :: "vt220 \<Rightarrow> vt220" where
  "save s = s\<lparr>m_cursor_saved := m_cursor s, m_att_saved := m_att s\<rparr>"

definition restore :: "vt220 \<Rightarrow> error + vt220" where
  "restore s =
     (let s1 = vt_CUP (cur_x (m_cursor_saved s)) (cur_y (m_cursor_saved s)) s;
          s2 = s1\<lparr>m_att := m_att_saved s1\<rparr>
      in select_trans (if att_charset (m_att s2) \<noteq> 0 then att_gr (m_att s2) else att_gl (m_att s2)) s2)"

text \<open>
  \<open>zap\<close> (lines 330-349): the inner loop over the columns \<open>x .. x1\<close> of row \<open>y\<close>, and the
  outer loop over the rows, which widens the column range to whole rows after the first.
  The cells are assigned without a range check.
\<close>

function zap_cols :: "int \<Rightarrow> int \<Rightarrow> vtAttr \<Rightarrow> vtAttr list \<Rightarrow> error + vtAttr list" where
  "zap_cols x x1 space cs =
     (if x \<le> x1
      then (case set_int cs x space of Inl e \<Rightarrow> Inl e | Inr cs' \<Rightarrow> zap_cols (x + 1) x1 space cs')
      else Inr cs)"
  by pat_completeness auto
termination
  by (relation "measure (\<lambda>(x, x1, space, cs). nat (x1 + 1 - x))") auto

declare zap_cols.simps [simp del]

function zap_rows :: "int \<Rightarrow> int \<Rightarrow> int \<Rightarrow> int \<Rightarrow> int \<Rightarrow> vtAttr \<Rightarrow> vtLine list \<Rightarrow> error + vtLine list" where
  "zap_rows y y1 x0 x1 w space scr =
     (if y \<le> y1
      then (if x0 \<le> x1
            then (case at_int scr y of
                    Inl e \<Rightarrow> Inl e
                  | Inr l \<Rightarrow>
                     (case zap_cols x0 x1 space (cells l) of
                        Inl e \<Rightarrow> Inl e
                      | Inr cs \<Rightarrow> zap_rows (y + 1) y1 0 (w - 1) w space (scr[nat y := l\<lparr>cells := cs\<rparr>])))
            else zap_rows (y + 1) y1 0 (w - 1) w space scr)
      else Inr scr)"
  by pat_completeness auto
termination
  by (relation "measure (\<lambda>(y, y1, x0, x1, w, space, scr). nat (y1 + 1 - y))") auto

declare zap_rows.simps [simp del]

definition zap :: "int \<Rightarrow> int \<Rightarrow> int \<Rightarrow> int \<Rightarrow> uint \<Rightarrow> vt220 \<Rightarrow> error + vt220" where
  "zap x0 y0 x1 y1 c s =
     bind_res (zap_rows y0 y1 x0 x1 (m_width s) (space_of (m_att s) c) (m_screen s)) (\<lambda>scr.
     Inr (s\<lparr>m_screen := scr\<rparr>))"

text \<open>\<open>vt_ED\<close> and \<open>vt_EL\<close> (lines 1024-1072); an argument other than 0, 1, 2 is logged and ignored.\<close>

definition vt_ED :: "int \<Rightarrow> vt220 \<Rightarrow> error + vt220" where
  "vt_ED n s =
     (let s1 = s\<lparr>m_cursor := (m_cursor s)\<lparr>cur_x := cur_newx (m_cursor s)\<rparr>\<rparr>
      in if n = 0 then zap (cur_x (m_cursor s1)) (cur_y (m_cursor s1)) (m_width s1 - 1) (m_height s1 - 1) 32 s1
         else if n = 1 then zap 0 0 (cur_x (m_cursor s1)) (cur_y (m_cursor s1)) 32 s1
         else if n = 2 then zap 0 0 (m_width s1 - 1) (m_height s1 - 1) 32 s1
         else Inr s1)"

definition vt_EL :: "int \<Rightarrow> vt220 \<Rightarrow> error + vt220" where
  "vt_EL n s =
     (let s1 = s\<lparr>m_cursor := (m_cursor s)\<lparr>cur_x := cur_newx (m_cursor s)\<rparr>\<rparr>
      in if n = 0 then zap (cur_x (m_cursor s1)) (cur_y (m_cursor s1)) (m_width s1 - 1) (cur_y (m_cursor s1)) 32 s1
         else if n = 1 then zap 0 (cur_y (m_cursor s1)) (cur_x (m_cursor s1)) (cur_y (m_cursor s1)) 32 s1
         else if n = 2 then zap 0 (cur_y (m_cursor s1)) (m_width s1 - 1) (cur_y (m_cursor s1)) 32 s1
         else Inr s1)"

text \<open>
  \<open>vt_IL\<close> and \<open>vt_DL\<close> (lines 1079-1108): scroll the rows from the cursor row to the
  bottom of the region, with \<open>m_top\<close> moved to the cursor row for the duration.
\<close>

definition vt_IL :: "int \<Rightarrow> vt220 \<Rightarrow> error + vt220" where
  "vt_IL n s =
     (let top = m_top s;
          s1 = s\<lparr>m_cursor := (m_cursor s)\<lparr>cur_x := cur_newx (m_cursor s)\<rparr>\<rparr>;
          s2 = s1\<lparr>m_top := cur_y (m_cursor s1)\<rparr>
      in bind_res (repeat_res (nat n) vt_scroll_dn s2) (\<lambda>s3. Inr (s3\<lparr>m_top := top\<rparr>)))"

definition vt_DL :: "int \<Rightarrow> vt220 \<Rightarrow> error + vt220" where
  "vt_DL n s =
     (let top = m_top s;
          s1 = s\<lparr>m_cursor := (m_cursor s)\<lparr>cur_x := cur_newx (m_cursor s)\<rparr>\<rparr>;
          s2 = s1\<lparr>m_top := cur_y (m_cursor s1)\<rparr>
      in bind_res (repeat_res (nat n) vt_scroll_up s2) (\<lambda>s3. Inr (s3\<lparr>m_top := top\<rparr>)))"

text \<open>The cell read \<open>m_screen[y][x]\<close>, without a range check in the source.\<close>

definition read_cell :: "vt220 \<Rightarrow> int \<Rightarrow> int \<Rightarrow> error + vtAttr" where
  "read_cell s y x = bind_res (at_int (m_screen s) y) (\<lambda>l. at_int (cells l) x)"

text \<open>
  \<open>vt_ICH\<close> (lines 1114-1128). The inner loop
  \<open>for (x = m_width - 1; x > m_cursor.x; x--) outch(x, m_cursor.y, m_screen[m_cursor.y][x-1])\<close>
  shifts the rest of the row right; then a blank goes to the cursor cell.
\<close>

function ich_shift :: "int \<Rightarrow> vt220 \<Rightarrow> error + vt220" where
  "ich_shift x s =
     (if x > cur_x (m_cursor s)
      then (case read_cell s (cur_y (m_cursor s)) (x - 1) of
              Inl e \<Rightarrow> Inl e
            | Inr c \<Rightarrow>
               (case outch x (cur_y (m_cursor s)) c s of
                  Inl e \<Rightarrow> Inl e
                | Inr s' \<Rightarrow> ich_shift (x - 1) s'))
      else Inr s)"
  by pat_completeness auto
termination
  by (relation "measure (\<lambda>(x, s). nat (x - cur_x (m_cursor s)))")
     (auto simp: outch_def bind_res_def at_int_def set_int_def split: if_splits)

declare ich_shift.simps [simp del]

definition ich_once :: "vt220 \<Rightarrow> error + vt220" where
  "ich_once s =
     bind_res (ich_shift (m_width s - 1) s) (\<lambda>s1.
     outch (cur_x (m_cursor s1)) (cur_y (m_cursor s1)) (space_of (m_att s1) 32) s1)"

definition vt_ICH :: "int \<Rightarrow> vt220 \<Rightarrow> error + vt220" where
  "vt_ICH n s =
     repeat_res (nat n) ich_once (s\<lparr>m_cursor := (m_cursor s)\<lparr>cur_x := cur_newx (m_cursor s)\<rparr>\<rparr>)"

text \<open>
  \<open>vt_DCH\<close> (lines 1134-1148). The inner loop
  \<open>for (x = m_cursor.x; x < m_width - 1; x++) outch(x, m_cursor.y, m_screen[m_cursor.y][x+1])\<close>
  shifts the rest of the row left; then a blank goes to the last column.
\<close>

function dch_shift :: "int \<Rightarrow> vt220 \<Rightarrow> error + vt220" where
  "dch_shift x s =
     (if x < m_width s - 1
      then (case read_cell s (cur_y (m_cursor s)) (x + 1) of
              Inl e \<Rightarrow> Inl e
            | Inr c \<Rightarrow>
               (case outch x (cur_y (m_cursor s)) c s of
                  Inl e \<Rightarrow> Inl e
                | Inr s' \<Rightarrow> dch_shift (x + 1) s'))
      else Inr s)"
  by pat_completeness auto
termination
  by (relation "measure (\<lambda>(x, s). nat (m_width s - x))")
     (auto simp: outch_def bind_res_def at_int_def set_int_def split: if_splits)

declare dch_shift.simps [simp del]

definition dch_once :: "vt220 \<Rightarrow> error + vt220" where
  "dch_once s =
     bind_res (dch_shift (cur_x (m_cursor s)) s) (\<lambda>s1.
     outch (m_width s1 - 1) (cur_y (m_cursor s1)) (space_of (m_att s1) 32) s1)"

definition vt_DCH :: "int \<Rightarrow> vt220 \<Rightarrow> error + vt220" where
  "vt_DCH n s =
     repeat_res (nat n) dch_once (s\<lparr>m_cursor := (m_cursor s)\<lparr>cur_x := cur_newx (m_cursor s)\<rparr>\<rparr>)"

text \<open>\<open>vt_CHT\<close> (lines 870-875).\<close>

definition vt_CHT :: "int \<Rightarrow> vt220 \<Rightarrow> error + vt220" where
  "vt_CHT n s = repeat_res (nat n) vt_TAB s"


section \<open>The byte-level state machine: \<open>putch\<close> (lines 2140-3001)\<close>

text \<open>
  The constants \<open>UC_INVALID\<close>, \<open>UC_REPLACE\<close>, \<open>CTRL_ALWAYS\<close> and \<open>CTRL_ACTION\<close> are defined in
  the missing header, and \<open>QChar::isPrint\<close> and \<open>QChar::category\<close> belong to Qt: they are
  parameters of the model, collected in \<open>qt_env\<close>. Of the categories only the three kinds
  of mark are told apart by the source.
\<close>

datatype qcategory = Mark_NonSpacing | Mark_SpacingCombining | Mark_Enclosing | Other_category

record qt_env =
  UC_INVALID :: uint
  UC_REPLACE :: uint
  CTRL_ALWAYS :: uint
  CTRL_ACTION :: uint
  isPrint :: "uint \<Rightarrow> bool"
  category :: "uint \<Rightarrow> qcategory"

text \<open>
  The C0 and C1 control codes the source names; the header defining the names is missing,
  the values are those of ISO 6429, several of them repeated in the comments of the source.
\<close>

definition NUL :: uchar where "NUL = 0x00"
definition ETX :: uchar where "ETX = 0x03"
definition ENQ :: uchar where "ENQ = 0x05"
definition BEL :: uchar where "BEL = 0x07"
definition BS :: uchar where "BS = 0x08"
definition HT :: uchar where "HT = 0x09"
definition LF :: uchar where "LF = 0x0a"
definition VT :: uchar where "VT = 0x0b"
definition FF :: uchar where "FF = 0x0c"
definition CR :: uchar where "CR = 0x0d"
definition SO :: uchar where "SO = 0x0e"
definition SI :: uchar where "SI = 0x0f"
definition CAN :: uchar where "CAN = 0x18"
definition SUB :: uchar where "SUB = 0x1a"
definition ESC :: uchar where "ESC = 0x1b"
definition DEL :: uchar where "DEL = 0x7f"
definition IND :: uchar where "IND = 0x84"
definition NEL :: uchar where "NEL = 0x85"
definition HTS :: uchar where "HTS = 0x88"
definition RI :: uchar where "RI = 0x8d"
definition SS2 :: uchar where "SS2 = 0x8e"
definition SS3 :: uchar where "SS3 = 0x8f"
definition DCS :: uchar where "DCS = 0x90"
definition SPA :: uchar where "SPA = 0x96"
definition EPA :: uchar where "EPA = 0x97"
definition SOS :: uchar where "SOS = 0x98"
definition DECID :: uchar where "DECID = 0x9a"
definition CSI :: uchar where "CSI = 0x9b"
definition ST :: uchar where "ST = 0x9c"
definition OSC :: uchar where "OSC = 0x9d"
definition PM :: uchar where "PM = 0x9e"
definition APC :: uchar where "APC = 0x9f"

lemmas ctrl_defs =
  NUL_def ETX_def ENQ_def BEL_def BS_def HT_def LF_def VT_def FF_def CR_def SO_def SI_def
  CAN_def SUB_def ESC_def DEL_def IND_def NEL_def HTS_def RI_def SS2_def SS3_def DCS_def
  SPA_def EPA_def SOS_def DECID_def CSI_def ST_def OSC_def PM_def APC_def

text \<open>How a part of \<open>putch\<close> ends: with a \<open>return\<close>, or by going on with the byte \<open>ch\<close>.\<close>

datatype flow = Done vt220 | Next uchar vt220

text \<open>
  The default translation shared by both decoding modes:
  \<open>tc = m_trans.value(ch, ch)\<close>, then the end of a single shift.
\<close>

definition translate :: "uchar \<Rightarrow> vt220 \<Rightarrow> error + (uint \<times> vt220)" where
  "translate ch s =
     (let tc = (case m_trans s ch of None \<Rightarrow> ucast ch | Some v \<Rightarrow> v)
      in if m_shift s \<ge> 0
         then (let g = nat (m_shift s mod 256);
                   s1 = s\<lparr>m_att := (m_att s)\<lparr>att_charset := g\<rparr>\<rparr>
               in bind_res (select_trans g s1) (\<lambda>s2. Inr (tc, s2\<lparr>m_shift := - 1\<rparr>)))
         else Inr (tc, s))"

text \<open>
  The UTF-8 branch of the loop body (lines 2153-2221), up to but not including the test
  for \<open>return\<close>. The result is the code point \<open>tc\<close> (unchanged where the source does not
  assign it), the byte \<open>ch2\<close> kept for reprocessing (0 where none), and the state.
\<close>

definition start_sequence :: "int \<Rightarrow> uint \<Rightarrow> uint \<Rightarrow> vt220 \<Rightarrow> vt220" where
  "start_sequence n code code_min s =
     s\<lparr>m_utf_more := n, m_utf_code := code, m_utf_code_min := code_min\<rparr>"

definition utf8_feed :: "qt_env \<Rightarrow> uchar \<Rightarrow> uint \<Rightarrow> vt220 \<Rightarrow> error + (uint \<times> uchar \<times> vt220)" where
  "utf8_feed E ch tc s =
     (if ch AND 0x80 \<noteq> 0
      then (if m_utf_more s > 0
            then (let code = push_bit 6 (m_utf_code s)
                  in if ch AND 0xc0 = 0x80
                     then (let code' = code OR ucast (ch AND 0x3f)
                           in if m_utf_more s - 1 = 0
                              then Inr (if code' < m_utf_code_min s then UC_REPLACE E else code', 0,
                                        s\<lparr>m_utf_code := 0, m_utf_more := 0\<rparr>)
                              else Inr (tc, 0, s\<lparr>m_utf_code := code', m_utf_more := m_utf_more s - 1\<rparr>))
                     else Inr (UC_REPLACE E, 0, s\<lparr>m_utf_code := code, m_utf_more := 0\<rparr>))
            else if ch AND 0xe0 = 0xc0
            then Inr (tc, 0, start_sequence 1 (ucast (ch AND 0x1f)) 0x80 s)
            else if ch AND 0xf0 = 0xe0
            then Inr (tc, 0, start_sequence 2 (ucast (ch AND 0x0f)) 0x800 s)
            else if ch AND 0xf8 = 0xf0
            then Inr (tc, 0, start_sequence 3 (ucast (ch AND 0x07)) 0x10000 s)
            else if ch AND 0xfc = 0xf8
            then Inr (tc, 0, start_sequence 4 (ucast (ch AND 0x03)) 0x110000 s)
            else if ch AND 0xfe = 0xfc
            then Inr (tc, 0, start_sequence 5 (ucast (ch AND 0x01)) 0x8000000 s)
            else Inr (UC_REPLACE E, 0, s\<lparr>m_utf_more := 0, m_utf_code := 0\<rparr>))
      else (if m_utf_more s > 0
            then Inr (UC_REPLACE E, ch, s\<lparr>m_utf_more := 0, m_utf_code := UC_INVALID E\<rparr>)
            else bind_res (translate ch (s\<lparr>m_utf_code := ucast ch\<rparr>)) (\<lambda>(tc', s'). Inr (tc', 0, s'))))"

text \<open>
  The decoding part of the loop body in either mode (lines 2150-2241): the code point, the
  byte as the rest of the body sees it (the legacy mode rewrites its top bit), the byte
  kept for reprocessing, and the state. The \<open>return\<close> that follows the UTF-8 branch is
  \<open>sequence_pending\<close>.
\<close>

definition decode :: "qt_env \<Rightarrow> uchar \<Rightarrow> uint \<Rightarrow> vt220 \<Rightarrow> error + (uint \<times> uchar \<times> uchar \<times> vt220)" where
  "decode E ch tc s =
     (if m_utf_mode s
      then bind_res (utf8_feed E ch tc s) (\<lambda>(tc', ch2, s'). Inr (tc', ch, ch2, s'))
      else (let ch' = (if m_togmeta s then ch OR 0x80 else ch AND 0x7f)
            in bind_res (translate ch' s) (\<lambda>(tc', s'). Inr (tc', ch', 0, s'))))"

definition sequence_pending :: "qt_env \<Rightarrow> vt220 \<Rightarrow> bool" where
  "sequence_pending E s \<longleftrightarrow> m_utf_mode s \<and> m_utf_code s \<noteq> UC_INVALID E \<and> m_utf_more s > 0"

text \<open>\<open>have_glyph\<close> (lines 2243-2246).\<close>

definition have_glyph :: "qt_env \<Rightarrow> uchar \<Rightarrow> uint \<Rightarrow> vt220 \<Rightarrow> bool" where
  "have_glyph E ch tc s \<longleftrightarrow>
     tc \<noteq> UC_INVALID E \<and>
     (ch \<ge> 32 \<or> (\<not> m_utf_mode s \<and>
        drop_bit (unat ch) (if m_dspctrl s then CTRL_ALWAYS E else CTRL_ACTION E) AND 1 = 0)) \<and>
     (ch \<noteq> DEL \<or> m_dspctrl s) \<and>
     (ch \<noteq> CSI \<or> m_utf_mode s)"

text \<open>
  The output of one glyph (lines 2256-2286). \<open>QChar qc(tc)\<close> keeps the low sixteen bits of
  \<open>tc\<close>; the static \<open>category(tc)\<close> sees all of it.
\<close>

definition is_mark :: "qcategory \<Rightarrow> bool" where
  "is_mark c \<longleftrightarrow> c = Mark_NonSpacing \<or> c = Mark_Enclosing \<or> c = Mark_SpacingCombining"

definition emit_glyph :: "qt_env \<Rightarrow> uint \<Rightarrow> vt220 \<Rightarrow> error + vt220" where
  "emit_glyph E tc s =
     (let width = (if category E tc = Mark_Enclosing then 2 else 1 :: int)
      in bind_res
           (if is_mark (category E (tc AND 0xffff))
            then bind_res (read_cell s (cur_y (m_cursor s)) (cur_x (m_cursor s))) (\<lambda>c.
                 outch (cur_x (m_cursor s)) (cur_y (m_cursor s))
                       (c\<lparr>att_mark := tc, att_width := width\<rparr>) s)
            else bind_res (if cur_newx (m_cursor s) \<ge> m_width s
                           then (if m_decawm s then vt_LF (vt_CR s)
                                 else Inr (set_newx (m_width s - 1) s))
                           else Inr s) (\<lambda>s1.
                 let s2 = s1\<lparr>m_cursor := (m_cursor s1)\<lparr>cur_x := cur_newx (m_cursor s1)\<rparr>\<rparr>
                 in bind_res (if m_decim s2 then vt_ICH 1 s2 else Inr s2) (\<lambda>s3.
                    let s4 = s3\<lparr>m_att := (m_att s3)\<lparr>att_code := tc, att_mark := 0\<rparr>\<rparr>
                    in outch (cur_x (m_cursor s4)) (cur_y (m_cursor s4)) (m_att s4) s4)))
           (\<lambda>s5. Inr (set_newx (cur_x (m_cursor s5) + width) s5)))"


text \<open>
  Writing a glyph leaves the decoder, the state of the machine, the tab stops and the
  geometry alone; the loop of \<open>putch\<close> terminates because of it.
\<close>

definition glyph_kept :: "vt220 \<Rightarrow> vt220 \<Rightarrow> bool" where
  "glyph_kept s s' \<longleftrightarrow>
     m_utf_mode s' = m_utf_mode s \<and> m_utf_more s' = m_utf_more s \<and> m_state s' = m_state s \<and>
     m_shift s' = m_shift s \<and> m_trans s' = m_trans s \<and> m_dspctrl s' = m_dspctrl s \<and>
     m_togmeta s' = m_togmeta s \<and> m_tabstop s' = m_tabstop s \<and>
     m_width s' = m_width s \<and> m_height s' = m_height s"

lemma glyph_kept_refl [simp]: "glyph_kept s s"
  by (simp add: glyph_kept_def)

lemma glyph_kept_trans: "glyph_kept s s1 \<Longrightarrow> glyph_kept s1 s2 \<Longrightarrow> glyph_kept s s2"
  by (simp add: glyph_kept_def)

lemma glyph_kept_set_cursor [simp]: "glyph_kept s (set_cursor on s)"
  by (simp add: glyph_kept_def set_cursor_def)

lemma glyph_kept_set_newx [simp]: "glyph_kept s (set_newx n s)"
  by (simp add: glyph_kept_def set_newx_def set_cursor_def Let_def)

lemma glyph_kept_cursor_update [simp]: "glyph_kept s (s\<lparr>m_cursor := c\<rparr>)"
  by (simp add: glyph_kept_def)

lemma glyph_kept_vt_CR [simp]: "glyph_kept s (vt_CR s)"
  by (simp add: glyph_kept_def vt_CR_def set_newx_def set_cursor_def Let_def)

lemma glyph_kept_outch: "outch x y pa s = Inr s' \<Longrightarrow> glyph_kept s s'"
  by (auto simp: glyph_kept_def outch_def bind_res_def split: if_splits sum.splits)

lemma glyph_kept_scroll_up: "vt_scroll_up s = Inr s' \<Longrightarrow> glyph_kept s s'"
  by (auto simp: glyph_kept_def vt_scroll_up_def bind_res_def add_backlog_def Let_def
      split: if_splits sum.splits)

lemma glyph_kept_vt_LF: "vt_LF s = Inr s' \<Longrightarrow> glyph_kept s s'"
proof -
  assume a: "vt_LF s = Inr s'"
  let ?s1 = "set_cursor False s"
  from a obtain s2 where s2: "s' = set_cursor (cur_on (m_cursor s)) s2"
    and c: "(if cur_y (m_cursor ?s1) + 1 \<ge> m_bottom ?s1 then vt_scroll_up ?s1
             else if cur_y (m_cursor ?s1) < m_height ?s1 - 1
             then Inr (?s1\<lparr>m_cursor := (m_cursor ?s1)\<lparr>cur_y := cur_y (m_cursor ?s1) + 1\<rparr>\<rparr>)
             else Inr ?s1) = Inr s2"
    by (auto simp: vt_LF_def Let_def bind_res_def split: sum.splits)
  have "glyph_kept ?s1 s2"
    using c glyph_kept_scroll_up [of ?s1 s2] by (auto split: if_splits)
  then have "glyph_kept s s2" using glyph_kept_trans glyph_kept_set_cursor by blast
  then show ?thesis unfolding s2 using glyph_kept_trans glyph_kept_set_cursor by blast
qed

lemma glyph_kept_ich_shift: "ich_shift x s = Inr s' \<Longrightarrow> glyph_kept s s'"
proof (induction x s rule: ich_shift.induct)
  case (1 x s)
  show ?case
  proof (cases "x > cur_x (m_cursor s)")
    case False
    then show ?thesis using "1.prems" by (subst (asm) ich_shift.simps) simp
  next
    case True
    from "1.prems" True obtain c s1 where
      c: "read_cell s (cur_y (m_cursor s)) (x - 1) = Inr c"
      and o: "outch x (cur_y (m_cursor s)) c s = Inr s1"
      and r: "ich_shift (x - 1) s1 = Inr s'"
      by (subst (asm) ich_shift.simps) (auto split: sum.splits)
    from "1.IH" [OF True c o r] glyph_kept_outch [OF o] show ?thesis
      using glyph_kept_trans by blast
  qed
qed

lemma glyph_kept_ich_once: "ich_once s = Inr s' \<Longrightarrow> glyph_kept s s'"
  by (auto simp: ich_once_def bind_res_def split: sum.splits
      intro: glyph_kept_trans [OF glyph_kept_ich_shift glyph_kept_outch])

lemma glyph_kept_repeat:
  assumes "\<And>s s'. f s = Inr s' \<Longrightarrow> glyph_kept s s'"
  shows "repeat_res k f s = Inr s' \<Longrightarrow> glyph_kept s s'"
proof (induction k arbitrary: s)
  case 0
  then show ?case by simp
next
  case (Suc k)
  then obtain s1 where "f s = Inr s1" "repeat_res k f s1 = Inr s'"
    by (auto simp: bind_res_def split: sum.splits)
  then show ?case using assms Suc.IH glyph_kept_trans by blast
qed

lemma glyph_kept_vt_ICH: "vt_ICH n s = Inr s' \<Longrightarrow> glyph_kept s s'"
  unfolding vt_ICH_def
  using glyph_kept_repeat [of ich_once, OF glyph_kept_ich_once] glyph_kept_trans glyph_kept_cursor_update
  by blast

lemma glyph_kept_emit_glyph: "emit_glyph E tc s = Inr s' \<Longrightarrow> glyph_kept s s'"
proof -
  assume a: "emit_glyph E tc s = Inr s'"
  define width where "width = (if category E tc = Mark_Enclosing then 2 else 1 :: int)"
  show ?thesis
  proof (cases "is_mark (category E (tc AND 0xffff))")
    case True
    from a True obtain c s5 where "outch (cur_x (m_cursor s)) (cur_y (m_cursor s))
                       (c\<lparr>att_mark := tc, att_width := width\<rparr>) s = Inr s5"
        "s' = set_newx (cur_x (m_cursor s5) + width) s5"
      by (auto simp: emit_glyph_def Let_def bind_res_def width_def split: sum.splits)
    then show ?thesis using glyph_kept_outch glyph_kept_trans glyph_kept_set_newx by blast
  next
    case False
    from a False obtain s1 s3 s5 where
      s1: "(if cur_newx (m_cursor s) \<ge> m_width s
            then (if m_decawm s then vt_LF (vt_CR s) else Inr (set_newx (m_width s - 1) s))
            else Inr s) = Inr s1"
      and s3: "(if m_decim (s1\<lparr>m_cursor := (m_cursor s1)\<lparr>cur_x := cur_newx (m_cursor s1)\<rparr>\<rparr>)
                then vt_ICH 1 (s1\<lparr>m_cursor := (m_cursor s1)\<lparr>cur_x := cur_newx (m_cursor s1)\<rparr>\<rparr>)
                else Inr (s1\<lparr>m_cursor := (m_cursor s1)\<lparr>cur_x := cur_newx (m_cursor s1)\<rparr>\<rparr>)) = Inr s3"
      and s5: "outch (cur_x (m_cursor s3)) (cur_y (m_cursor s3))
                 ((m_att s3)\<lparr>att_code := tc, att_mark := 0\<rparr>)
                 (s3\<lparr>m_att := (m_att s3)\<lparr>att_code := tc, att_mark := 0\<rparr>\<rparr>) = Inr s5"
      and s': "s' = set_newx (cur_x (m_cursor s5) + width) s5"
      by (auto simp: emit_glyph_def Let_def bind_res_def width_def split: sum.splits)
    have k1: "glyph_kept s s1"
      using s1 glyph_kept_vt_LF [of "vt_CR s" s1] glyph_kept_trans [OF glyph_kept_vt_CR]
      by (auto split: if_splits)
    have k2: "glyph_kept s1 s3"
    proof (cases "m_decim (s1\<lparr>m_cursor := (m_cursor s1)\<lparr>cur_x := cur_newx (m_cursor s1)\<rparr>\<rparr>)")
      case True
      then have "vt_ICH 1 (s1\<lparr>m_cursor := (m_cursor s1)\<lparr>cur_x := cur_newx (m_cursor s1)\<rparr>\<rparr>) = Inr s3"
        using s3 by (simp only: if_True)
      from glyph_kept_vt_ICH [OF this] show ?thesis by (simp add: glyph_kept_def)
    next
      case False
      then show ?thesis using s3 by (auto simp: glyph_kept_def)
    qed
    have k3: "glyph_kept s3 s5"
      using glyph_kept_outch [OF s5] by (simp add: glyph_kept_def)
    show ?thesis unfolding s'
      using k1 k2 k3 glyph_kept_trans glyph_kept_set_newx by blast
  qed
qed

text \<open>
  The \<open>for (;;)\<close> loop of \<open>putch\<close> (lines 2150-2293). It goes round a second time only to
  reprocess the byte that cut a pending sequence short, and then nothing is pending.
\<close>

function putch_loop :: "qt_env \<Rightarrow> uchar \<Rightarrow> uint \<Rightarrow> vt220 \<Rightarrow> error + flow" where
  "putch_loop E ch tc s =
     (case decode E ch tc s of
        Inl e \<Rightarrow> Inl e
      | Inr (tc1, ch1, ch2, s1) \<Rightarrow>
         if sequence_pending E s1 then Inr (Done s1)
         else (let hg = have_glyph E ch1 tc1 s1;
                   tc2 = (if hg \<and> \<not> isPrint E tc1 then UC_REPLACE E else tc1)
               in if \<not> hg \<or> m_state s1 \<noteq> ESnormal then Inr (Next ch1 s1)
                  else (case emit_glyph E tc2 s1 of
                          Inl e \<Rightarrow> Inl e
                        | Inr s2 \<Rightarrow> if ch2 = 0 then Inr (Done s2) else putch_loop E ch2 tc2 s2)))"
  by pat_completeness auto
termination
proof (relation "measure (\<lambda>(E, ch, tc, s). if m_utf_mode s \<and> m_utf_more s > 0 then 1 else 0)")
  show "wf (measure (\<lambda>(E, ch, tc, s). if m_utf_mode s \<and> 0 < m_utf_more s then 1 else 0))"
    by simp
next
  fix E :: qt_env and ch :: uchar and tc :: uint and s :: vt220
  fix x2 tc1 y ch1 ya ch2 s1 hg tc2 s2
  assume d: "decode E ch tc s = Inr x2" "(tc1, y) = x2" "(ch1, ya) = y" "(ch2, s1) = ya"
    and g: "emit_glyph E tc2 s1 = Inr s2" and n: "ch2 \<noteq> 0"
  from d have dec: "decode E ch tc s = Inr (tc1, ch1, ch2, s1)" by auto
  have "m_utf_mode s \<and> m_utf_more s > 0 \<and> m_utf_more s1 = 0 \<and> m_utf_mode s1 = m_utf_mode s"
    using dec n
    by (auto simp: decode_def utf8_feed_def bind_res_def translate_def Let_def start_sequence_def
        split: if_splits sum.splits prod.splits)
  moreover have "glyph_kept s1 s2" using g by (rule glyph_kept_emit_glyph)
  ultimately show "((E, ch2, tc2, s2), E, ch, tc, s)
       \<in> measure (\<lambda>(E, ch, tc, s). if m_utf_mode s \<and> 0 < m_utf_more s then 1 else 0)"
    by (simp add: glyph_kept_def)
qed

declare putch_loop.simps [simp del]

text \<open>
  The switch over the C0 and C1 controls taken in state \<open>ESnormal\<close> (lines 2295-2423).
  Every case returns except \<open>CSI\<close>, which sets the state and goes on into the state
  switch, as every other byte does unchanged. \<open>vt_DECID\<close> answers on the response channel
  and is not part of this development.
\<close>

definition putch_control :: "uchar \<Rightarrow> vt220 \<Rightarrow> error + flow" where
  "putch_control ch s =
     (let done = (\<lambda>r. bind_res r (\<lambda>s'. Inr (Done s')));
          cr = (\<lambda>s. if m_deccr s then vt_CR s else s)
      in if ch = NUL then Inr (Done s)
         else if ch = BEL then Inr (Done s)
         else if ch = BS then Inr (Done (vt_BS s))
         else if ch = HT then done (vt_TAB s)
         else if ch = LF then done (vt_LF (cr s))
         else if ch = VT then done (vt_VT (cr s))
         else if ch = FF then done (vt_LF (cr s))
         else if ch = CR then Inr (Done (vt_CR s))
         else if ch = SO then done (vt_LS1 s)
         else if ch = SI then done (vt_LS0 s)
         else if ch = CAN then Inr (Done (s\<lparr>m_state := ESnormal\<rparr>))
         else if ch = SUB then Inr (Done (s\<lparr>m_state := ESnormal\<rparr>))
         else if ch = ESC then Inr (Done (s\<lparr>m_state := ESesc\<rparr>))
         else if ch = IND then done (vt_IND s)
         else if ch = NEL then done (vt_NEL s)
         else if ch = HTS then done (vt_HTS s)
         else if ch = RI then done (vt_RI s)
         else if ch = SS2 then done (vt_SS 2 s)
         else if ch = SS3 then done (vt_SS 3 s)
         else if ch = DCS then Inr (Done s)
         else if ch = SPA then Inr (Done s)
         else if ch = EPA then Inr (Done s)
         else if ch = SOS then Inr (Done (s\<lparr>m_string := [], m_state := ESstring\<rparr>))
         else if ch = DECID then Inl NotModelled
         else if ch = CSI then Inr (Next ch (s\<lparr>m_state := EScsi\<rparr>))
         else if ch = ST then Inr (Done (s\<lparr>m_state := ESnormal\<rparr>))
         else if ch = OSC then Inr (Done (s\<lparr>m_state := ESosc\<rparr>))
         else if ch = PM then Inr (Done (s\<lparr>m_state := ESnormal\<rparr>))
         else if ch = APC then Inr (Done (s\<lparr>m_state := ESnormal\<rparr>))
         else Inr (Next ch s))"

text \<open>
  State \<open>ESesc\<close> (lines 2427-2580). The state is back to \<open>ESnormal\<close> before the byte is
  looked at. \<open>ESC Z\<close> (device report), \<open>ESC c\<close> (full reset) are not part of this
  development.
\<close>

definition putch_esc :: "uchar \<Rightarrow> vt220 \<Rightarrow> error + vt220" where
  "putch_esc ch s0 =
     (let s = s0\<lparr>m_state := ESnormal\<rparr>
      in if ch = ETX \<or> ch = ENQ then Inr s
         else if ch = FF then vt_FF s
         else if ch = SO \<or> ch = SI then Inr s
         else if ch = 0x20 then Inr (s\<lparr>m_state := ESspc\<rparr>)
         else if ch = 0x25 \<comment> \<open>percent\<close> then Inr (s\<lparr>m_state := ESperc\<rparr>)
         else if ch = 0x44 \<comment> \<open>D\<close> then vt_IND s
         else if ch = 0x45 \<comment> \<open>E\<close> then vt_NEL s
         else if ch = 0x48 \<comment> \<open>H\<close> then vt_HTS s
         else if ch = 0x4d \<comment> \<open>M\<close> then vt_RI s
         else if ch = 0x4e \<comment> \<open>N\<close> then vt_SS 2 s
         else if ch = 0x4f \<comment> \<open>O\<close> then vt_SS 3 s
         else if ch = 0x50 \<comment> \<open>P\<close> then Inr s
         else if ch = 0x56 \<comment> \<open>V\<close> then Inr s
         else if ch = 0x57 \<comment> \<open>W\<close> then Inr s
         else if ch = 0x58 \<comment> \<open>X\<close> then Inr (s\<lparr>m_string := [], m_state := ESstring\<rparr>)
         else if ch = 0x5a \<comment> \<open>Z\<close> then Inl NotModelled
         else if ch = 0x5b \<comment> \<open>[\<close> then Inr (s\<lparr>m_state := EScsi\<rparr>)
         else if ch = 0x5c \<comment> \<open>backslash\<close> then Inr (s\<lparr>m_state := ESnormal\<rparr>)
         else if ch = 0x5d \<comment> \<open>]\<close> then Inr (s\<lparr>m_state := ESosc\<rparr>)
         else if ch = 0x5e \<or> ch = 0x5f then Inr s
         else if ch = 0x37 \<comment> \<open>7\<close> then Inr (save s)
         else if ch = 0x38 \<comment> \<open>8\<close> then restore s
         else if ch = 0x3d \<or> ch = 0x3e then Inr s
         else if ch = 0x28 \<comment> \<open>(\<close> then Inr (s\<lparr>m_state := ESsetG0_vt200\<rparr>)
         else if ch = 0x29 \<comment> \<open>)\<close> then Inr (s\<lparr>m_state := ESsetG1_vt200\<rparr>)
         else if ch = 0x2a \<comment> \<open>*\<close> then Inr (s\<lparr>m_state := ESsetG2_vt200\<rparr>)
         else if ch = 0x2b \<comment> \<open>+\<close> then Inr (s\<lparr>m_state := ESsetG3_vt200\<rparr>)
         else if ch = 0x23 \<comment> \<open>#\<close> then Inr (s\<lparr>m_state := EShash\<rparr>)
         else if ch = 0x63 \<comment> \<open>c\<close> then Inl NotModelled
         else if ch = 0x6c \<or> ch = 0x6d then Inr s
         else if ch = 0x6e \<comment> \<open>n\<close> then vt_LS2 s
         else if ch = 0x6f \<comment> \<open>o\<close> then vt_LS3 s
         else if ch = 0x7e \<comment> \<open>~\<close> then Inr (vt_LSR 1 s)
         else if ch = 0x7d \<comment> \<open>}\<close> then Inr (vt_LSR 2 s)
         else if ch = 0x7c \<comment> \<open>|\<close> then Inr (vt_LSR 3 s)
         else Inr s)"

text \<open>State \<open>ESspc\<close> (lines 2582-2603).\<close>

definition putch_spc :: "uchar \<Rightarrow> vt220 \<Rightarrow> vt220" where
  "putch_spc ch s0 =
     (let s = s0\<lparr>m_state := ESnormal\<rparr>
      in if ch = 0x46 \<comment> \<open>F\<close> then s\<lparr>m_s8c1t := False\<rparr>
         else if ch = 0x47 \<comment> \<open>G\<close> then s\<lparr>m_s8c1t := True\<rparr>
         else if ch = 0x4c \<comment> \<open>L\<close> then s\<lparr>m_ansi := 1\<rparr>
         else if ch = 0x4d \<comment> \<open>M\<close> then s\<lparr>m_ansi := 2\<rparr>
         else if ch = 0x4e \<comment> \<open>N\<close> then s\<lparr>m_ansi := 3\<rparr>
         else s)"

text \<open>
  State \<open>ESosc\<close> (lines 2605-2618). \<open>OSC R\<close> reloads the palette tables and is not part of
  this development.
\<close>

definition putch_osc :: "uchar \<Rightarrow> vt220 \<Rightarrow> error + vt220" where
  "putch_osc ch s0 =
     (let s = s0\<lparr>m_state := ESnormal\<rparr>
      in if ch = 0x50 \<comment> \<open>P\<close> then Inr (s\<lparr>m_state := ESpalette, m_csi_args := []\<rparr>)
         else if ch = 0x52 \<comment> \<open>R\<close> then Inl NotModelled
         else Inr s)"

text \<open>
  \<open>QByteArray::fromHex\<close> of the one-byte array holding \<open>ch\<close>, followed by \<open>at(0)\<close>: the value
  of a hexadecimal digit; any other byte is skipped by \<open>fromHex\<close>, and \<open>at(0)\<close> of the empty
  array is outside it.
\<close>

definition hex_value :: "uchar \<Rightarrow> error + int" where
  "hex_value ch =
     (if 0x30 \<le> ch \<and> ch \<le> 0x39 then Inr (uint ch - 0x30)
      else if 0x61 \<le> ch \<and> ch \<le> 0x66 then Inr (uint ch - 0x61 + 10)
      else if 0x41 \<le> ch \<and> ch \<le> 0x46 then Inr (uint ch - 0x41 + 10)
      else Inl OutOfRange)"

text \<open>
  State \<open>ESpalette\<close> (lines 2620-2635). \<open>resize(count + 1)\<close> appends a zero and \<open>append\<close>
  appends the digit, so each byte adds two values. \<open>uchar(v)\<close> keeps the low eight bits.
\<close>

definition putch_palette :: "uchar \<Rightarrow> vt220 \<Rightarrow> error + vt220" where
  "putch_palette ch s =
     (let args1 = m_csi_args s @ [0]
      in bind_res (hex_value ch) (\<lambda>v.
         let args2 = args1 @ [v];
             s1 = s\<lparr>m_csi_args := args2\<rparr>
         in if length args2 = 7
            then (let i = (word_of_int (args2 ! 0) :: uchar);
                      r = (word_of_int (push_bit 4 (args2 ! 1) OR args2 ! 2) :: uchar);
                      g = (word_of_int (push_bit 4 (args2 ! 3) OR args2 ! 4) :: uchar);
                      b = (word_of_int (push_bit 4 (args2 ! 5) OR args2 ! 6) :: uchar)
                  in bind_res (set_int (m_pal s1) (uint i) (r, g, b)) (\<lambda>pal.
                     Inr (s1\<lparr>m_pal := pal, m_state := ESnormal\<rparr>)))
            else Inr s1))"

text \<open>
  States \<open>EScsi\<close> and \<open>ESgetargs\<close> (lines 2637-2665): \<open>Done\<close> where the source returns or
  breaks out of the switch, \<open>Next\<close> where it falls through into the dispatch of \<open>ESgotargs\<close>.
\<close>

definition putch_getargs :: "uchar \<Rightarrow> vt220 \<Rightarrow> error + flow" where
  "putch_getargs ch s =
     (if ch = 0x3b \<comment> \<open>;\<close> then Inr (Done (s\<lparr>m_csi_args := m_csi_args s @ [0]\<rparr>))
      else if 0x30 \<le> ch \<and> ch \<le> 0x39
      then (let idx = int (length (m_csi_args s)) - 1
            in bind_res (at_int (m_csi_args s) idx) (\<lambda>v.
               Inr (Done (s\<lparr>m_csi_args := (m_csi_args s)[nat idx := i32 (i32 (v * 10 + uint ch) - 0x30)]\<rparr>))))
      else Inr (Next ch (s\<lparr>m_state := ESgotargs\<rparr>)))"

definition putch_csi :: "uchar \<Rightarrow> vt220 \<Rightarrow> error + flow" where
  "putch_csi ch s0 =
     (let s = s0\<lparr>m_state := ESgetargs, m_csi_args := qfill 0 1 (m_csi_args s0)\<rparr>
      in if ch = 0x5b \<comment> \<open>[\<close> then Inr (Done (s\<lparr>m_state := ESfunckey\<rparr>))
         else (let s1 = s\<lparr>m_ques := (ch = 0x3f)\<rparr>
               in if m_ques s1 then Inr (Done s1) else putch_getargs ch s1))"

text \<open>
  The parameter reads of the dispatch: \<open>m_csi_args.count() < 1 ? d : m_csi_args[0]\<close>,
  \<open>m_csi_args.value(i)\<close> (zero outside the vector), \<open>m_csi_args.resize(1)\<close>, and the
  \<open>append\<close> of a default while the vector is shorter than \<open>n\<close>.
\<close>

definition arg0_or :: "int \<Rightarrow> vt220 \<Rightarrow> int" where
  "arg0_or d s = (if length (m_csi_args s) < 1 then d else m_csi_args s ! 0)"

definition arg_value :: "nat \<Rightarrow> vt220 \<Rightarrow> int" where
  "arg_value i s = (if i < length (m_csi_args s) then m_csi_args s ! i else 0)"

definition args_resize1 :: "vt220 \<Rightarrow> vt220" where
  "args_resize1 s = s\<lparr>m_csi_args := take 1 (m_csi_args s) @ replicate (1 - length (m_csi_args s)) 0\<rparr>"

definition args_default :: "nat \<Rightarrow> int \<Rightarrow> vt220 \<Rightarrow> vt220" where
  "args_default n d s = (if length (m_csi_args s) < n then s\<lparr>m_csi_args := m_csi_args s @ [d]\<rparr> else s)"

text \<open>
  The first switch of state \<open>ESgotargs\<close> (lines 2669-2722) with the test of the private
  marker after it: \<open>Done\<close> where the source returns. Mode set and reset (\<open>h\<close>, \<open>l\<close>) and the
  status reports (\<open>n\<close>) are not part of this development.
\<close>

definition putch_private :: "uchar \<Rightarrow> vt220 \<Rightarrow> error + flow" where
  "putch_private ch s0 =
     (let s = s0\<lparr>m_state := ESnormal\<rparr>
      in bind_res
           (if ch = 0x68 \<comment> \<open>h\<close> then Inl NotModelled
            else if ch = 0x6c \<comment> \<open>l\<close> then Inl NotModelled
            else if ch = 0x63 \<comment> \<open>c\<close>
            then Inr (if \<not> m_ques s then s
                      else s\<lparr>m_cursor_type :=
                             (if length (m_csi_args s) > 2
                              then i32 (i32 (arg_value 0 s + i32 (push_bit 8 (arg_value 1 s)))
                                        + i32 (push_bit 16 (arg_value 2 s)))
                              else 0)\<rparr>)
            else if ch = 0x6d \<comment> \<open>m\<close>
            then Inr (if \<not> m_ques s then s
                      else s\<lparr>m_cc_mask :=
                             (if length (m_csi_args s) > 1
                              then i32 (push_bit 8 (arg_value 0 s)) OR arg_value 1 s
                              else m_cc_save s)\<rparr>)
            else if ch = 0x6e \<comment> \<open>n\<close>
            then (if m_ques s then Inr s else Inl NotModelled)
            else Inr s)
           (\<lambda>s1. if m_ques s1 then Inr (Done (s1\<lparr>m_ques := False\<rparr>)) else Inr (Next ch s1)))"

text \<open>The scroll-region branch of the dispatch (final byte \<open>r\<close>, lines 2850-2861).\<close>

definition csi_region :: "vt220 \<Rightarrow> error + vt220" where
  "csi_region s0 =
     (let s1 = args_default 1 1 s0;
          s = args_default 1 (m_height s1) s1
      in bind_res (at_int (m_csi_args s) 0) (\<lambda>a0.
         bind_res (at_int (m_csi_args s) 1) (\<lambda>a1.
           if a0 < a1 \<and> a1 \<le> m_height s
           then Inr (vt_CUA 0 0 (s\<lparr>m_top := i32 (a0 - 1), m_bottom := a1\<rparr>))
           else Inr s)))"

text \<open>
  The second switch of state \<open>ESgotargs\<close> (lines 2724-2874). SGR (\<open>m\<close>), the device
  attributes report (\<open>c\<close>) and the console commands (\<open>]\<close>) are not part of this development.
\<close>

definition putch_dispatch :: "uchar \<Rightarrow> vt220 \<Rightarrow> error + vt220" where
  "putch_dispatch ch s =
     (if ch = 0x40 \<comment> \<open>@\<close> then vt_ICH (arg0_or 1 s) s
      else if ch = 0x41 \<comment> \<open>A\<close> then Inr (vt_CUU (arg0_or 1 s) s)
      else if ch = 0x42 \<or> ch = 0x65 \<comment> \<open>B, e\<close> then Inr (vt_CUD (arg0_or 1 s) s)
      else if ch = 0x43 \<or> ch = 0x61 \<comment> \<open>C, a\<close>
      then Inr (vt_CUF (arg0_or 1 s) (s\<lparr>m_cursor := (m_cursor s)\<lparr>cur_x := cur_newx (m_cursor s)\<rparr>\<rparr>))
      else if ch = 0x44 \<comment> \<open>D\<close>
      then Inr (vt_CUB (arg0_or 1 s) (s\<lparr>m_cursor := (m_cursor s)\<lparr>cur_x := cur_newx (m_cursor s)\<rparr>\<rparr>))
      else if ch = 0x45 \<comment> \<open>E\<close> then vt_CNL (arg0_or 1 s) s
      else if ch = 0x46 \<comment> \<open>F\<close> then vt_CPL (arg0_or 1 s) s
      else if ch = 0x47 \<or> ch = 0x60 \<comment> \<open>G, `\<close> then Inr (vt_CHA (arg0_or 1 s) s)
      else if ch = 0x48 \<or> ch = 0x66 \<comment> \<open>H, f\<close>
      then (let s1 = args_default 2 1 (args_default 1 1 s)
            in bind_res (at_int (m_csi_args s1) 1) (\<lambda>a1.
               bind_res (at_int (m_csi_args s1) 0) (\<lambda>a0.
               Inr (vt_CUA (i32 (a1 - 1)) (i32 (a0 - 1)) s1))))
      else if ch = 0x49 \<comment> \<open>I\<close> then vt_CHT (arg0_or 0 s) s
      else if ch = 0x4a \<comment> \<open>J\<close> then vt_ED (arg0_or 0 s) s
      else if ch = 0x4b \<comment> \<open>K\<close> then vt_EL (arg0_or 0 s) s
      else if ch = 0x4c \<comment> \<open>L\<close> then vt_IL (arg0_or 1 s) s
      else if ch = 0x4d \<comment> \<open>M\<close> then vt_DL (arg0_or 1 s) s
      else if ch = 0x50 \<or> ch = 0x58 \<comment> \<open>P, X\<close>
      then (let s1 = args_resize1 s;
                s2 = (if m_csi_args s1 ! 0 = 0 then s1\<lparr>m_csi_args := (m_csi_args s1)[0 := 1]\<rparr> else s1)
            in if ch = 0x50 then vt_DCH (m_csi_args s2 ! 0) s2 else vt_ECH (m_csi_args s2 ! 0) s2)
      else if ch = 0x63 \<comment> \<open>c\<close> then Inl NotModelled
      else if ch = 0x64 \<comment> \<open>d\<close>
      then (let s1 = args_default 1 1 s;
                s2 = s1\<lparr>m_cursor := (m_cursor s1)\<lparr>cur_x := cur_newx (m_cursor s1)\<rparr>\<rparr>
            in Inr (vt_CUA (cur_x (m_cursor s2)) (i32 (m_csi_args s2 ! 0 - 1)) s2))
      else if ch = 0x67 \<comment> \<open>g\<close>
      then (let s1 = args_resize1 s in csi_TBC (m_csi_args s1 ! 0) s1)
      else if ch = 0x6d \<comment> \<open>m\<close> then Inl NotModelled
      else if ch = 0x71 \<comment> \<open>q\<close> then Inr s
      else if ch = 0x72 \<comment> \<open>r\<close> then csi_region s
      else if ch = 0x73 \<comment> \<open>s\<close> then Inr (save s)
      else if ch = 0x75 \<comment> \<open>u\<close> then restore s
      else if ch = 0x5d \<comment> \<open>]\<close> then Inl NotModelled
      else Inr s)"

definition putch_gotargs :: "uchar \<Rightarrow> vt220 \<Rightarrow> error + vt220" where
  "putch_gotargs ch s =
     bind_res (putch_private ch s) (\<lambda>f.
       case f of Done s' \<Rightarrow> Inr s' | Next ch' s' \<Rightarrow> putch_dispatch ch' s')"

text \<open>State \<open>ESstring\<close> (lines 2876-2891).\<close>

definition putch_string :: "uchar \<Rightarrow> vt220 \<Rightarrow> vt220" where
  "putch_string ch s =
     (if m_string s = [] then s\<lparr>m_string := [ch]\<rparr>
      else if ch = 0x5c \<and> last (m_string s) = ESC
      then s\<lparr>m_string := butlast (m_string s), m_state := ESnormal\<rparr>
      else if ch = ST then s\<lparr>m_state := ESnormal\<rparr>
      else s\<lparr>m_string := m_string s @ [ch]\<rparr>)"

text \<open>State \<open>ESperc\<close> (lines 2893-2909).\<close>

definition putch_perc :: "uchar \<Rightarrow> vt220 \<Rightarrow> vt220" where
  "putch_perc ch s0 =
     (let s = s0\<lparr>m_state := ESnormal\<rparr>
      in if ch = 0x40 \<comment> \<open>@\<close> then s\<lparr>m_utf_mode := False\<rparr>
         else if ch = 0x47 \<or> ch = 0x38 \<comment> \<open>G, 8\<close> then s\<lparr>m_utf_mode := True\<rparr>
         else s)"

text \<open>
  State \<open>EShash\<close> (lines 2975-2993): the line attributes of the cursor row, which is
  indexed without a range check.
\<close>

definition putch_hash :: "uchar \<Rightarrow> vt220 \<Rightarrow> error + vt220" where
  "putch_hash ch s0 =
     (let s = s0\<lparr>m_state := ESnormal\<rparr>;
          on_row = (\<lambda>f. bind_res (at_int (m_screen s) (cur_y (m_cursor s))) (\<lambda>l.
                      Inr (s\<lparr>m_screen := (m_screen s)[nat (cur_y (m_cursor s)) := f l]\<rparr>)))
      in if ch = 0x33 \<comment> \<open>3\<close> then on_row (\<lambda>l. l\<lparr>decdhl := Double_top\<rparr>)
         else if ch = 0x34 \<comment> \<open>4\<close> then on_row (\<lambda>l. l\<lparr>decdhl := Double_bottom\<rparr>)
         else if ch = 0x35 \<comment> \<open>5\<close> then on_row (\<lambda>l. l\<lparr>decdwl := False\<rparr>)
         else if ch = 0x36 \<comment> \<open>6\<close> then on_row (\<lambda>l. l\<lparr>decdwl := True\<rparr>)
         else Inr s)"

text \<open>
  The switch over \<open>m_state\<close> (lines 2425-3000). The character-set designation states need
  the tables of \<open>term_reset\<close> and are not part of this development; \<open>ESnormal\<close> has no case.
\<close>

definition putch_state :: "uchar \<Rightarrow> vt220 \<Rightarrow> error + vt220" where
  "putch_state ch s =
     (case m_state s of
        ESnormal \<Rightarrow> Inr s
      | ESesc \<Rightarrow> putch_esc ch s
      | ESspc \<Rightarrow> Inr (putch_spc ch s)
      | ESosc \<Rightarrow> putch_osc ch s
      | ESpalette \<Rightarrow> putch_palette ch s
      | EScsi \<Rightarrow> bind_res (putch_csi ch s) (\<lambda>f.
                   case f of Done s' \<Rightarrow> Inr s' | Next ch' s' \<Rightarrow> putch_gotargs ch' s')
      | ESgetargs \<Rightarrow> bind_res (putch_getargs ch s) (\<lambda>f.
                   case f of Done s' \<Rightarrow> Inr s' | Next ch' s' \<Rightarrow> putch_gotargs ch' s')
      | ESgotargs \<Rightarrow> putch_gotargs ch s
      | ESstring \<Rightarrow> Inr (putch_string ch s)
      | ESperc \<Rightarrow> Inr (putch_perc ch s)
      | EShash \<Rightarrow> putch_hash ch s
      | ESfunckey \<Rightarrow> Inr (s\<lparr>m_state := ESnormal\<rparr>)
      | _ \<Rightarrow> Inl NotModelled)"

text \<open>\<open>putch\<close>: the loop, then the controls if the state is \<open>ESnormal\<close>, then the state switch.\<close>

definition putch_rest :: "uchar \<Rightarrow> vt220 \<Rightarrow> error + vt220" where
  "putch_rest ch s =
     (if m_state s = ESnormal
      then bind_res (putch_control ch s) (\<lambda>f.
             case f of Done s' \<Rightarrow> Inr s' | Next ch' s' \<Rightarrow> putch_state ch' s')
      else putch_state ch s)"

definition putch :: "qt_env \<Rightarrow> uchar \<Rightarrow> vt220 \<Rightarrow> error + vt220" where
  "putch E ch s =
     bind_res (putch_loop E ch (UC_INVALID E) s) (\<lambda>f.
       case f of Done s' \<Rightarrow> Inr s' | Next ch' s' \<Rightarrow> putch_rest ch' s')"

text \<open>
  \<open>write\<close> (lines 3003-3013), named \<open>write_data\<close> here: every byte of the data in turn.
\<close>

fun putch_all :: "qt_env \<Rightarrow> uchar list \<Rightarrow> vt220 \<Rightarrow> error + vt220" where
  "putch_all E [] s = Inr s"
| "putch_all E (ch # data) s = bind_res (putch E ch s) (putch_all E data)"

definition write_data :: "qt_env \<Rightarrow> uchar list \<Rightarrow> vt220 \<Rightarrow> error + vt220" where
  "write_data E data s =
     (let was_on = cur_on (m_cursor s)
      in bind_res (putch_all E data (set_cursor False s)) (\<lambda>s'. Inr (set_cursor was_on s')))"


section \<open>Well-formed engine states\<close>

text \<open>
  The shape every public entry point leaves behind: at least one row and one column, a
  screen of exactly \<open>m_height\<close> rows of exactly \<open>m_width\<close> cells.
\<close>

definition screen_ok :: "vt220 \<Rightarrow> bool" where
  "screen_ok s \<longleftrightarrow>
     1 \<le> m_width s \<and> 1 \<le> m_height s \<and> length (m_screen s) = nat (m_height s) \<and>
     list_all (\<lambda>l. length (cells l) = nat (m_width s)) (m_screen s)"

text \<open>The scroll region lies inside the screen and is not empty.\<close>

definition region_ok :: "vt220 \<Rightarrow> bool" where
  "region_ok s \<longleftrightarrow> 0 \<le> m_top s \<and> m_top s < m_bottom s \<and> m_bottom s \<le> m_height s"

text \<open>The clamp invariant of the specification.\<close>

definition cursor_ok :: "vt220 \<Rightarrow> bool" where
  "cursor_ok s \<longleftrightarrow>
     0 \<le> cur_y (m_cursor s) \<and> cur_y (m_cursor s) \<le> m_height s - 1 \<and>
     0 \<le> cur_x (m_cursor s) \<and> cur_x (m_cursor s) \<le> m_width s - 1"


text \<open>The assignment \<open>m_screen[y][x] = pa\<close>.\<close>

definition put_cell :: "int \<Rightarrow> int \<Rightarrow> vtAttr \<Rightarrow> vt220 \<Rightarrow> vt220" where
  "put_cell x y pa s =
     s\<lparr>m_screen := (m_screen s)[nat y := (m_screen s ! nat y)\<lparr>cells := (cells (m_screen s ! nat y))[nat x := pa]\<rparr>]\<rparr>"

text \<open>
  An engine state for the examples: the members as the constructor and \<open>term_reset\<close> leave
  them for a terminal of \<open>w\<close> columns and \<open>h\<close> rows, with empty character maps (every byte
  then translates to itself) and an empty palette.
\<close>

definition def_att :: vtAttr where
  "def_att = \<lparr>att_code = 32, att_mark = 0, att_width = 1, att_charset = 0,
              att_gl = 0, att_gr = 1, att_sgr = 0\<rparr>"

definition example_term :: "int \<Rightarrow> int \<Rightarrow> vt220" where
  "example_term w h =
     \<lparr>m_backlog_max = 10000, m_backlog = [],
      m_screen = replicate (nat h) \<lparr>cells = replicate (nat w) def_att, decdwl = False, decdhl = Single_height\<rparr>,
      m_width = w, m_height = h, m_top = 0, m_bottom = h, m_pal = [],
      m_def = def_att, m_att = def_att, m_att_saved = def_att,
      m_cursor = \<lparr>cur_x = 0, cur_y = 0, cur_newx = 0, cur_phase = 0, cur_on = False\<rparr>,
      m_cursor_saved = \<lparr>cur_x = 0, cur_y = 0, cur_newx = 0, cur_phase = 0, cur_on = False\<rparr>,
      m_csi_args = [], m_tabstop = replicate 256 False, m_state = ESnormal, m_deccolm = 80,
      m_ques = False, m_togmeta = False, m_deccm = True, m_decim = False, m_decom = False,
      m_deccr = True, m_decawm = True, m_dspctrl = True, m_s8c1t = True, m_ansi = 3,
      m_cursor_type = 0, m_cc_mask = 30464, m_cc_save = 30464, m_string = [],
      m_gmaps = [Map.empty, Map.empty, Map.empty, Map.empty], m_trans = Map.empty,
      m_shift = - 1, m_utf_mode = True, m_utf_more = 0, m_utf_code = 0, m_utf_code_min = 0\<rparr>"

text \<open>The cell holding the letter X, to tell written cells from blanks in the examples.\<close>

definition letter_X :: vtAttr where
  "letter_X = def_att\<lparr>att_code := 88\<rparr>"

text \<open>The row list after the copy loop of \<open>vt_scroll_up\<close> over rows \<open>t .. b - 1\<close>.\<close>

definition shifted_up :: "int \<Rightarrow> int \<Rightarrow> 'a list \<Rightarrow> 'a list" where
  "shifted_up t b scr =
     map (\<lambda>i. if t \<le> int i \<and> int i < b - 1 then scr ! (i + 1) else scr ! i) [0..<length scr]"

text \<open>The row list after the copy loop of \<open>vt_scroll_dn\<close> over rows \<open>t .. y\<close>.\<close>

definition shifted_dn :: "int \<Rightarrow> int \<Rightarrow> 'a list \<Rightarrow> 'a list" where
  "shifted_dn t y scr =
     map (\<lambda>i. if t < int i \<and> int i \<le> y then scr ! (i - 1) else scr ! i) [0..<length scr]"

text \<open>The blank row: \<open>m_width\<close> blanks with the current attributes, line flags cleared.\<close>

definition blank_line :: "vt220 \<Rightarrow> vtLine" where
  "blank_line s =
     \<lparr>cells = replicate (nat (m_width s)) (space_of (m_att s) 32),
      decdwl = False, decdhl = Single_height\<rparr>"

text \<open>The page after one upward scroll of the region.\<close>

definition scrolled_up :: "vt220 \<Rightarrow> vtLine list" where
  "scrolled_up s = (shifted_up (m_top s) (m_bottom s) (m_screen s))[nat (m_bottom s - 1) := blank_line s]"

text \<open>The page after one downward scroll of the region.\<close>

definition scrolled_dn :: "vt220 \<Rightarrow> vtLine list" where
  "scrolled_dn s = (shifted_dn (m_top s) (m_bottom s - 1) (m_screen s))[nat (m_top s) := blank_line s]"


text \<open>Shape, scroll region and cursor together.\<close>

definition wf_state :: "vt220 \<Rightarrow> bool" where
  "wf_state s \<longleftrightarrow> screen_ok s \<and> region_ok s \<and> cursor_ok s"


text \<open>The last \<open>k\<close> elements of a list, in order.\<close>

definition keep_last :: "nat \<Rightarrow> 'a list \<Rightarrow> 'a list" where
  "keep_last k xs = drop (length xs - k) xs"

text \<open>The scroll region spans the whole screen: the test of \<open>vt_scroll_up\<close>.\<close>

definition full_region :: "vt220 \<Rightarrow> bool" where
  "full_region s \<longleftrightarrow> m_top s = 0 \<and> m_height s = m_bottom s"

text \<open>What the row-count loops keep.\<close>

definition same_settings :: "vt220 \<Rightarrow> vt220 \<Rightarrow> bool" where
  "same_settings s s' \<longleftrightarrow>
     m_width s' = m_width s \<and> m_deccolm s' = m_deccolm s \<and> m_tabstop s' = m_tabstop s \<and>
     m_def s' = m_def s \<and> m_cursor s' = m_cursor s \<and> m_backlog_max s' = m_backlog_max s"



text \<open>
  A terminal of one column and two rows holding X over a blank, with the scrollback bound
  set to one row; and a three-row terminal whose scroll region starts at the second row.
\<close>

definition fifo_example :: vt220 where
  "fifo_example = (example_term 1 2)\<lparr>m_backlog_max := 1,
     m_screen := [\<lparr>cells = [letter_X], decdwl = False, decdhl = Single_height\<rparr>,
                  \<lparr>cells = [def_att], decdwl = True, decdhl = Single_height\<rparr>]\<rparr>"

definition region_example :: vt220 where
  "region_example = (example_term 1 3)\<lparr>m_top := 1\<rparr>"



text \<open>A terminal of one column and twenty-six rows.\<close>

definition rows_example :: vt220 where
  "rows_example = example_term 1 26"

section \<open>Writing cells\<close>




lemma put_cell_fields [simp]:
  "m_width (put_cell x y pa s) = m_width s"
  "m_height (put_cell x y pa s) = m_height s"
  "m_cursor (put_cell x y pa s) = m_cursor s"
  "m_att (put_cell x y pa s) = m_att s"
  "m_backlog (put_cell x y pa s) = m_backlog s"
  "m_tabstop (put_cell x y pa s) = m_tabstop s"
  "m_top (put_cell x y pa s) = m_top s"
  "m_bottom (put_cell x y pa s) = m_bottom s"
  "m_decom (put_cell x y pa s) = m_decom s"
  by (simp_all add: put_cell_def)



section \<open>Scrolling\<close>


lemma scroll_up_rows_ok:
  "0 \<le> y \<Longrightarrow> b \<le> int (length scr) \<Longrightarrow> scroll_up_rows y b scr = Inr (shifted_up y b scr)"
proof (induction y b scr rule: scroll_up_rows.induct)
  case (1 y b scr)
  show ?case
  proof (cases "y < b - 1")
    case False
    have "shifted_up y b scr = scr"
      using False by (intro nth_equalityI) (auto simp: shifted_up_def)
    then show ?thesis using False by (subst scroll_up_rows.simps) simp
  next
    case True
    let ?l = "scr ! nat (y + 1)"
    let ?scr1 = "scr[nat y := ?l]"
    have a: "at_int scr (y + 1) = Inr ?l"
      using True "1.prems" by (simp add: at_int_def)
    have b: "set_int scr y ?l = Inr ?scr1"
      using True "1.prems" by (simp add: set_int_def)
    have ih: "scroll_up_rows (y + 1) b ?scr1 = Inr (shifted_up (y + 1) b ?scr1)"
      using "1.IH" [OF True, of ?scr1] "1.prems" by simp
    have "shifted_up (y + 1) b ?scr1 = shifted_up y b scr"
    proof (intro nth_equalityI)
      show "length (shifted_up (y + 1) b ?scr1) = length (shifted_up y b scr)"
        by (simp add: shifted_up_def)
    next
      fix i assume "i < length (shifted_up (y + 1) b ?scr1)"
      then have i: "i < length scr" by (simp add: shifted_up_def)
      have ny: "nat (y + 1) = nat y + 1" using "1.prems" by simp
      show "shifted_up (y + 1) b ?scr1 ! i = shifted_up y b scr ! i"
        using i True "1.prems" ny
        by (auto simp: shifted_up_def nth_list_update)
    qed
    with ih a b True show ?thesis
      by (subst scroll_up_rows.simps) (simp add: bind_res_def)
  qed
qed

lemma scroll_dn_rows_ok:
  "0 \<le> t \<Longrightarrow> y < int (length scr) \<Longrightarrow> scroll_dn_rows y t scr = Inr (shifted_dn t y scr)"
proof (induction y t scr rule: scroll_dn_rows.induct)
  case (1 y t scr)
  show ?case
  proof (cases "y > t")
    case False
    have "shifted_dn t y scr = scr"
      using False by (intro nth_equalityI) (auto simp: shifted_dn_def)
    then show ?thesis using False by (subst scroll_dn_rows.simps) simp
  next
    case True
    let ?l = "scr ! nat (y - 1)"
    let ?scr1 = "scr[nat y := ?l]"
    have a: "at_int scr (y - 1) = Inr ?l"
      using True "1.prems" by (simp add: at_int_def)
    have b: "set_int scr y ?l = Inr ?scr1"
      using True "1.prems" by (simp add: set_int_def)
    have ih: "scroll_dn_rows (y - 1) t ?scr1 = Inr (shifted_dn t (y - 1) ?scr1)"
      using "1.IH" [OF True, of ?scr1] "1.prems" by simp
    have "shifted_dn t (y - 1) ?scr1 = shifted_dn t y scr"
    proof (intro nth_equalityI)
      show "length (shifted_dn t (y - 1) ?scr1) = length (shifted_dn t y scr)"
        by (simp add: shifted_dn_def)
    next
      fix i assume "i < length (shifted_dn t (y - 1) ?scr1)"
      then have i: "i < length scr" by (simp add: shifted_dn_def)
      have ny: "nat (y - 1) = nat y - 1" using "1.prems" True by simp
      show "shifted_dn t (y - 1) ?scr1 ! i = shifted_dn t y scr ! i"
        using i True "1.prems" ny
        by (auto simp: shifted_dn_def nth_list_update)
    qed
    with ih a b True show ?thesis
      by (subst scroll_dn_rows.simps) (simp add: bind_res_def)
  qed
qed

lemma blank_fill_eq: "0 \<le> m_width s \<Longrightarrow> blank_fill s pl = blank_line s"
  by (simp add: blank_fill_def blank_line_def qfill_def)

lemma length_shifted_up [simp]: "length (shifted_up t b scr) = length scr"
  by (simp add: shifted_up_def)

lemma length_shifted_dn [simp]: "length (shifted_dn t b scr) = length scr"
  by (simp add: shifted_dn_def)

lemma add_backlog_fields [simp]:
  "m_width (add_backlog l s) = m_width s"
  "m_height (add_backlog l s) = m_height s"
  "m_top (add_backlog l s) = m_top s"
  "m_bottom (add_backlog l s) = m_bottom s"
  "m_screen (add_backlog l s) = m_screen s"
  "m_att (add_backlog l s) = m_att s"
  "m_cursor (add_backlog l s) = m_cursor s"
  "m_backlog_max (add_backlog l s) = m_backlog_max s"
  "m_decom (add_backlog l s) = m_decom s"
  "m_tabstop (add_backlog l s) = m_tabstop s"
  by (simp_all add: add_backlog_def Let_def)

lemma blank_line_add_backlog [simp]: "blank_line (add_backlog l s) = blank_line s"
  by (simp add: blank_line_def)

lemma vt_scroll_up_ok:
  assumes "screen_ok s" and "region_ok s"
  shows "vt_scroll_up s =
           Inr ((if m_top s = 0 \<and> m_height s = m_bottom s
                 then add_backlog (m_screen s ! 0) s else s)\<lparr>m_screen := scrolled_up s\<rparr>)"
proof -
  let ?s1 = "if m_top s = 0 \<and> m_height s = m_bottom s then add_backlog (m_screen s ! 0) s else s"
  have len: "int (length (m_screen s)) = m_height s" "1 \<le> m_height s" "0 \<le> m_width s"
    using assms(1) by (simp_all add: screen_ok_def)
  have r: "0 \<le> m_top s" "m_top s < m_bottom s" "m_bottom s \<le> m_height s"
    using assms(2) by (simp_all add: region_ok_def)
  have a: "at_int (m_screen s) 0 = Inr (m_screen s ! 0)"
    using len by (simp add: at_int_def)
  have f: "m_top ?s1 = m_top s" "m_bottom ?s1 = m_bottom s" "m_screen ?s1 = m_screen s"
    "blank_fill ?s1 = blank_fill s"
    by (auto simp: blank_fill_def fun_eq_iff)
  have l: "scroll_up_rows (m_top s) (m_bottom s) (m_screen s)
            = Inr (shifted_up (m_top s) (m_bottom s) (m_screen s))"
    using scroll_up_rows_ok r len by simp
  have b: "at_int (shifted_up (m_top s) (m_bottom s) (m_screen s)) (m_bottom s - 1)
            = Inr (shifted_up (m_top s) (m_bottom s) (m_screen s) ! nat (m_bottom s - 1))"
    using r len by (simp add: at_int_def)
  have c: "set_int (shifted_up (m_top s) (m_bottom s) (m_screen s)) (m_bottom s - 1) v
            = Inr ((shifted_up (m_top s) (m_bottom s) (m_screen s))[nat (m_bottom s - 1) := v])" for v
    using r len by (simp add: set_int_def)
  have g: "m_width (add_backlog (m_screen s ! 0) s) = m_width s" by simp
  show ?thesis
  proof (cases "m_top s = 0 \<and> m_height s = m_bottom s")
    case True
    show ?thesis
      unfolding vt_scroll_up_def if_P [OF True]
      using a l b c len(3) g
      by (simp add: bind_res_def blank_fill_eq scrolled_up_def)
  next
    case False
    show ?thesis
      unfolding vt_scroll_up_def if_not_P [OF False]
      using l b c len(3)
      by (simp add: bind_res_def blank_fill_eq scrolled_up_def)
  qed
qed

lemma vt_scroll_dn_ok:
  assumes "screen_ok s" and "region_ok s"
  shows "vt_scroll_dn s = Inr (s\<lparr>m_screen := scrolled_dn s\<rparr>)"
proof -
  have len: "int (length (m_screen s)) = m_height s" "1 \<le> m_height s" "0 \<le> m_width s"
    using assms(1) by (simp_all add: screen_ok_def)
  have r: "0 \<le> m_top s" "m_top s < m_bottom s" "m_bottom s \<le> m_height s"
    using assms(2) by (simp_all add: region_ok_def)
  have l: "scroll_dn_rows (m_bottom s - 1) (m_top s) (m_screen s)
            = Inr (shifted_dn (m_top s) (m_bottom s - 1) (m_screen s))"
    using scroll_dn_rows_ok r len by simp
  have b: "at_int (shifted_dn (m_top s) (m_bottom s - 1) (m_screen s)) (m_top s)
            = Inr (shifted_dn (m_top s) (m_bottom s - 1) (m_screen s) ! nat (m_top s))"
    using r len by (simp add: at_int_def)
  have c: "set_int (shifted_dn (m_top s) (m_bottom s - 1) (m_screen s)) (m_top s) v
            = Inr ((shifted_dn (m_top s) (m_bottom s - 1) (m_screen s))[nat (m_top s) := v])" for v
    using r len by (simp add: set_int_def)
  show ?thesis
    unfolding vt_scroll_dn_def
    using l b c len(3)
    by (simp add: bind_res_def blank_fill_eq scrolled_dn_def)
qed

section \<open>Cursor primitives keep the shape of the state\<close>


lemma set_cursor_fields [simp]:
  "m_width (set_cursor on s) = m_width s"
  "m_height (set_cursor on s) = m_height s"
  "m_top (set_cursor on s) = m_top s"
  "m_bottom (set_cursor on s) = m_bottom s"
  "m_screen (set_cursor on s) = m_screen s"
  "m_backlog (set_cursor on s) = m_backlog s"
  "m_backlog_max (set_cursor on s) = m_backlog_max s"
  "m_att (set_cursor on s) = m_att s"
  "m_decom (set_cursor on s) = m_decom s"
  "m_tabstop (set_cursor on s) = m_tabstop s"
  "cur_x (m_cursor (set_cursor on s)) = cur_x (m_cursor s)"
  "cur_y (m_cursor (set_cursor on s)) = cur_y (m_cursor s)"
  "cur_newx (m_cursor (set_cursor on s)) = cur_newx (m_cursor s)"
  by (simp_all add: set_cursor_def)

lemma set_newx_fields [simp]:
  "m_width (set_newx n s) = m_width s"
  "m_height (set_newx n s) = m_height s"
  "m_top (set_newx n s) = m_top s"
  "m_bottom (set_newx n s) = m_bottom s"
  "m_screen (set_newx n s) = m_screen s"
  "m_backlog (set_newx n s) = m_backlog s"
  "m_backlog_max (set_newx n s) = m_backlog_max s"
  "m_att (set_newx n s) = m_att s"
  "m_decom (set_newx n s) = m_decom s"
  "m_tabstop (set_newx n s) = m_tabstop s"
  "cur_x (m_cursor (set_newx n s)) = cur_x (m_cursor s)"
  "cur_y (m_cursor (set_newx n s)) = cur_y (m_cursor s)"
  "cur_newx (m_cursor (set_newx n s)) = n"
  by (simp_all add: set_newx_def Let_def)

lemma screen_ok_cong:
  "m_width s' = m_width s \<Longrightarrow> m_height s' = m_height s \<Longrightarrow> m_screen s' = m_screen s \<Longrightarrow>
   screen_ok s' = screen_ok s"
  by (simp add: screen_ok_def)

lemma region_ok_cong:
  "m_top s' = m_top s \<Longrightarrow> m_height s' = m_height s \<Longrightarrow> m_bottom s' = m_bottom s \<Longrightarrow>
   region_ok s' = region_ok s"
  by (simp add: region_ok_def)

lemma screen_ok_set_cursor [simp]: "screen_ok (set_cursor on s) = screen_ok s"
  by (rule screen_ok_cong) simp_all

lemma region_ok_set_cursor [simp]: "region_ok (set_cursor on s) = region_ok s"
  by (rule region_ok_cong) simp_all

lemma cursor_ok_set_cursor [simp]: "cursor_ok (set_cursor on s) = cursor_ok s"
  by (simp add: cursor_ok_def)

lemma screen_ok_set_newx [simp]: "screen_ok (set_newx n s) = screen_ok s"
  by (rule screen_ok_cong) simp_all

lemma region_ok_set_newx [simp]: "region_ok (set_newx n s) = region_ok s"
  by (rule region_ok_cong) simp_all

lemma cursor_ok_set_newx [simp]: "cursor_ok (set_newx n s) = cursor_ok s"
  by (simp add: cursor_ok_def)

lemma vt_CR_fields [simp]:
  "m_width (vt_CR s) = m_width s"
  "m_height (vt_CR s) = m_height s"
  "m_top (vt_CR s) = m_top s"
  "m_bottom (vt_CR s) = m_bottom s"
  "m_screen (vt_CR s) = m_screen s"
  "m_backlog (vt_CR s) = m_backlog s"
  "m_backlog_max (vt_CR s) = m_backlog_max s"
  "m_att (vt_CR s) = m_att s"
  "m_decom (vt_CR s) = m_decom s"
  "m_tabstop (vt_CR s) = m_tabstop s"
  "cur_x (m_cursor (vt_CR s)) = 0"
  "cur_y (m_cursor (vt_CR s)) = cur_y (m_cursor s)"
  "cur_newx (m_cursor (vt_CR s)) = 0"
  by (simp_all add: vt_CR_def Let_def)

lemma vt_CUP_fields [simp]:
  "m_width (vt_CUP x y s) = m_width s"
  "m_height (vt_CUP x y s) = m_height s"
  "m_top (vt_CUP x y s) = m_top s"
  "m_bottom (vt_CUP x y s) = m_bottom s"
  "m_screen (vt_CUP x y s) = m_screen s"
  "m_backlog (vt_CUP x y s) = m_backlog s"
  "m_backlog_max (vt_CUP x y s) = m_backlog_max s"
  "m_att (vt_CUP x y s) = m_att s"
  "m_decom (vt_CUP x y s) = m_decom s"
  "m_tabstop (vt_CUP x y s) = m_tabstop s"
  by (simp_all add: vt_CUP_def Let_def)

lemma vt_CUP_cursor:
  "cur_x (m_cursor (vt_CUP x y s)) = (if x < 0 then 0 else if x \<ge> m_width s then m_width s - 1 else x)"
  "cur_newx (m_cursor (vt_CUP x y s)) = (if x < 0 then 0 else if x \<ge> m_width s then m_width s - 1 else x)"
  "cur_y (m_cursor (vt_CUP x y s)) =
     (if m_decom s then qBound (m_top s) y (m_bottom s - 1) else qBound 0 y (m_height s - 1))"
  by (simp_all add: vt_CUP_def Let_def)

lemma screen_ok_scrolled_up:
  assumes "screen_ok s" "region_ok s"
  shows "length (scrolled_up s) = nat (m_height s)"
    and "list_all (\<lambda>l. length (cells l) = nat (m_width s)) (scrolled_up s)"
proof -
  show "length (scrolled_up s) = nat (m_height s)"
    using assms by (simp add: scrolled_up_def screen_ok_def)
  have "\<And>i. i < length (scrolled_up s) \<Longrightarrow> length (cells (scrolled_up s ! i)) = nat (m_width s)"
    using assms
    by (auto simp: scrolled_up_def screen_ok_def region_ok_def shifted_up_def list_all_length
        nth_list_update blank_line_def)
  then show "list_all (\<lambda>l. length (cells l) = nat (m_width s)) (scrolled_up s)"
    by (simp add: list_all_length)
qed

lemma screen_ok_scrolled_dn:
  assumes "screen_ok s" "region_ok s"
  shows "length (scrolled_dn s) = nat (m_height s)"
    and "list_all (\<lambda>l. length (cells l) = nat (m_width s)) (scrolled_dn s)"
proof -
  show "length (scrolled_dn s) = nat (m_height s)"
    using assms by (simp add: scrolled_dn_def screen_ok_def)
  have "\<And>i. i < length (scrolled_dn s) \<Longrightarrow> length (cells (scrolled_dn s ! i)) = nat (m_width s)"
    using assms
    by (auto simp: scrolled_dn_def screen_ok_def region_ok_def shifted_dn_def list_all_length
        nth_list_update blank_line_def)
  then show "list_all (\<lambda>l. length (cells l) = nat (m_width s)) (scrolled_dn s)"
    by (simp add: list_all_length)
qed

text \<open>A line feed on a well-formed state.\<close>

lemma vt_LF_ok:
  assumes "screen_ok s" "region_ok s"
  shows "vt_LF s =
     Inr (set_cursor (cur_on (m_cursor s))
       (if cur_y (m_cursor s) + 1 \<ge> m_bottom s
        then (if m_top s = 0 \<and> m_height s = m_bottom s
              then add_backlog (m_screen s ! 0) (set_cursor False s) else set_cursor False s)
             \<lparr>m_screen := scrolled_up s\<rparr>
        else if cur_y (m_cursor s) < m_height s - 1
        then (set_cursor False s)\<lparr>m_cursor := (m_cursor (set_cursor False s))\<lparr>cur_y := cur_y (m_cursor s) + 1\<rparr>\<rparr>
        else set_cursor False s))"
proof -
  let ?s1 = "set_cursor False s"
  have ok: "screen_ok ?s1" "region_ok ?s1" using assms by simp_all
  have su: "scrolled_up ?s1 = scrolled_up s"
    by (simp add: scrolled_up_def blank_line_def)
  show ?thesis
    unfolding vt_LF_def Let_def
    using vt_scroll_up_ok [OF ok] su
    by (simp add: bind_res_def)
qed

lemma vt_RI_ok:
  assumes "screen_ok s" "region_ok s"
  shows "vt_RI s =
     Inr (set_cursor (cur_on (m_cursor s))
       (if cur_y (m_cursor s) \<le> m_top s
        then (set_cursor False s)\<lparr>m_screen := scrolled_dn s,
               m_cursor := (m_cursor (set_cursor False s))\<lparr>cur_y := m_top s\<rparr>\<rparr>
        else if cur_y (m_cursor s) > 0
        then (set_cursor False s)\<lparr>m_cursor := (m_cursor (set_cursor False s))\<lparr>cur_y := cur_y (m_cursor s) - 1\<rparr>\<rparr>
        else set_cursor False s))"
proof -
  let ?s1 = "set_cursor False s"
  have ok: "screen_ok ?s1" "region_ok ?s1" using assms by simp_all
  have su: "scrolled_dn ?s1 = scrolled_dn s"
    by (simp add: scrolled_dn_def blank_line_def)
  show ?thesis
    unfolding vt_RI_def Let_def
    using vt_scroll_dn_ok [OF ok] su
    by (simp add: bind_res_def)
qed


lemma vt_LF_wf:
  assumes "wf_state s"
  shows "\<exists>s'. vt_LF s = Inr s' \<and> wf_state s'"
proof -
  have ok: "screen_ok s" "region_ok s" "cursor_ok s" using assms by (simp_all add: wf_state_def)
  note su = screen_ok_scrolled_up [OF ok(1,2)]
  show ?thesis
    unfolding vt_LF_ok [OF ok(1,2)]
    using ok su
    by (auto simp: wf_state_def screen_ok_def region_ok_def cursor_ok_def)
qed

lemma vt_RI_wf:
  assumes "wf_state s"
  shows "\<exists>s'. vt_RI s = Inr s' \<and> wf_state s'"
proof -
  have ok: "screen_ok s" "region_ok s" "cursor_ok s" using assms by (simp_all add: wf_state_def)
  note su = screen_ok_scrolled_dn [OF ok(1,2)]
  show ?thesis
    unfolding vt_RI_ok [OF ok(1,2)]
    using ok su
    by (auto simp: wf_state_def screen_ok_def region_ok_def cursor_ok_def)
qed

lemma vt_CR_wf: "wf_state s \<Longrightarrow> wf_state (vt_CR s)"
  by (simp add: wf_state_def screen_ok_def region_ok_def cursor_ok_def)

lemma vt_CUP_wf: "wf_state s \<Longrightarrow> wf_state (vt_CUP x y s)"
  by (auto simp: wf_state_def screen_ok_def region_ok_def cursor_ok_def vt_CUP_cursor qBound_def)

lemma vt_NEL_wf: "wf_state s \<Longrightarrow> \<exists>s'. vt_NEL s = Inr s' \<and> wf_state s'"
  unfolding vt_NEL_def by (rule vt_LF_wf) (rule vt_CR_wf)

lemma repeat_res_wf:
  assumes step: "\<And>s. wf_state s \<Longrightarrow> \<exists>s'. f s = Inr s' \<and> wf_state s'"
  shows "wf_state s \<Longrightarrow> \<exists>s'. repeat_res k f s = Inr s' \<and> wf_state s'"
proof (induction k arbitrary: s)
  case 0
  then show ?case by simp
next
  case (Suc k)
  from step [OF Suc.prems] obtain s1 where s1: "f s = Inr s1" "wf_state s1" by blast
  from Suc.IH [OF s1(2)] obtain s2 where "repeat_res k f s1 = Inr s2" "wf_state s2" by blast
  with s1 show ?case by (simp add: bind_res_def)
qed

section \<open>Cursor movement keeps the cursor on the page\<close>
















lemma clamp_cursor_update [simp]:
  "clamp_col (s\<lparr>m_cursor := c\<rparr>) x = clamp_col s x"
  "clamp_row (s\<lparr>m_cursor := c\<rparr>) y = clamp_row s y"
  by (simp_all add: clamp_col_def clamp_row_def)



section \<open>The scrollback log\<close>


lemma keep_last_append_keep_last:
  "keep_last k (keep_last k xs @ ys) = keep_last k (xs @ ys)"
proof (cases "length xs \<le> k")
  case True
  then show ?thesis by (simp add: keep_last_def)
next
  case False
  then have "length xs + length ys - (length xs - k + k) + (length xs - k) = length xs + length ys - k"
    by simp
  then show ?thesis using False by (simp add: keep_last_def drop_append)
qed

lemma keep_last_short: "length xs \<le> k \<Longrightarrow> keep_last k xs = xs"
  by (simp add: keep_last_def)

lemma keep_last_append_long: "k \<le> length ys \<Longrightarrow> keep_last k (xs @ ys) = drop (length ys - k) ys"
  by (simp add: keep_last_def)

lemma length_keep_last: "length (keep_last k xs) = min k (length xs)"
  by (auto simp: keep_last_def)

lemma add_backlog_keep_last:
  assumes "0 \<le> m_backlog_max s" and "int (length (m_backlog s)) \<le> m_backlog_max s"
  shows "m_backlog (add_backlog l s) = keep_last (nat (m_backlog_max s)) (m_backlog s @ [l])"
proof (cases "int (length (m_backlog s)) = m_backlog_max s")
  case True
  then have "nat (m_backlog_max s) = length (m_backlog s)" by simp
  then show ?thesis using True
    by (cases "m_backlog s") (simp_all add: add_backlog_def Let_def keep_last_def)
next
  case False
  then have "length (m_backlog s) + 1 \<le> nat (m_backlog_max s)" using assms by simp
  then show ?thesis using False assms
    by (simp add: add_backlog_def Let_def keep_last_def)
qed

lemma scrolled_up_full:
  assumes "screen_ok s" and "full_region s"
  shows "scrolled_up s = tl (m_screen s) @ [blank_line s]"
proof (intro nth_equalityI)
  have len: "length (m_screen s) = nat (m_height s)" "1 \<le> m_height s"
    using assms(1) by (simp_all add: screen_ok_def)
  then have ne: "m_screen s \<noteq> []" by auto
  show l: "length (scrolled_up s) = length (tl (m_screen s) @ [blank_line s])"
    using ne by (simp add: scrolled_up_def)
  fix i assume "i < length (scrolled_up s)"
  then have i: "i < length (m_screen s)" by (simp add: scrolled_up_def)
  have b: "nat (m_bottom s - 1) = length (m_screen s) - 1" "m_top s = 0"
      "m_bottom s = int (length (m_screen s))"
    using assms(2) len by (simp_all add: full_region_def)
  show "scrolled_up s ! i = (tl (m_screen s) @ [blank_line s]) ! i"
  proof (cases "i = length (m_screen s) - 1")
    case True
    then show ?thesis using i b by (simp add: scrolled_up_def nth_append)
  next
    case False
    then have "i < length (m_screen s) - 1" using i by simp
    then show ?thesis using i b
      by (simp add: scrolled_up_def shifted_up_def nth_append nth_tl)
  qed
qed

lemma vt_scroll_up_full:
  assumes "screen_ok s" and "full_region s"
  shows "vt_scroll_up s =
           Inr ((add_backlog (hd (m_screen s)) s)\<lparr>m_screen := tl (m_screen s) @ [blank_line s]\<rparr>)"
proof -
  have len: "length (m_screen s) = nat (m_height s)" "1 \<le> m_height s"
    using assms(1) by (simp_all add: screen_ok_def)
  then have ne: "m_screen s \<noteq> []" by auto
  have r: "region_ok s" using assms(2) len by (simp add: region_ok_def full_region_def)
  have h: "m_screen s ! 0 = hd (m_screen s)" using ne by (simp add: hd_conv_nth)
  have c: "m_top s = 0 \<and> m_height s = m_bottom s" using assms(2) by (simp add: full_region_def)
  show ?thesis
    unfolding vt_scroll_up_ok [OF assms(1) r] if_P [OF c] h scrolled_up_full [OF assms] ..
qed

lemma scroll_up_n_backlog:
  "screen_ok s \<Longrightarrow> full_region s \<Longrightarrow> 0 \<le> m_backlog_max s \<Longrightarrow>
   int (length (m_backlog s)) \<le> m_backlog_max s \<Longrightarrow>
   \<exists>s'. repeat_res N vt_scroll_up s = Inr s' \<and>
        m_backlog s' = keep_last (nat (m_backlog_max s))
                         (m_backlog s @ take N (m_screen s @ replicate N (blank_line s)))"
proof (induction N arbitrary: s)
  case 0
  then show ?case by (simp add: keep_last_short)
next
  case (Suc N)
  let ?s1 = "(add_backlog (hd (m_screen s)) s)\<lparr>m_screen := tl (m_screen s) @ [blank_line s]\<rparr>"
  let ?k = "nat (m_backlog_max s)"
  have len: "length (m_screen s) = nat (m_height s)" "1 \<le> m_height s"
    using Suc.prems(1) by (simp_all add: screen_ok_def)
  then have ne: "m_screen s \<noteq> []" by auto
  have st: "vt_scroll_up s = Inr ?s1" using Suc.prems(1,2) by (rule vt_scroll_up_full)
  have bl: "m_backlog ?s1 = keep_last ?k (m_backlog s @ [hd (m_screen s)])"
    using add_backlog_keep_last [OF Suc.prems(3,4)] by simp
  have ok1: "screen_ok ?s1"
    using Suc.prems(1) ne
    by (cases "m_screen s") (auto simp: screen_ok_def blank_line_def)
  have fr1: "full_region ?s1" using Suc.prems(2) by (simp add: full_region_def)
  have mx: "m_backlog_max ?s1 = m_backlog_max s" by simp
  have l1: "int (length (m_backlog ?s1)) \<le> m_backlog_max ?s1"
    using Suc.prems(3) by (simp add: bl length_keep_last)
  have b1: "blank_line ?s1 = blank_line s" by (simp add: blank_line_def)
  from Suc.IH [OF ok1 fr1 _ l1] Suc.prems(3)
  obtain s' where s': "repeat_res N vt_scroll_up ?s1 = Inr s'"
     "m_backlog s' = keep_last ?k (m_backlog ?s1 @ take N (m_screen ?s1 @ replicate N (blank_line ?s1)))"
    unfolding mx by auto
  have ev: "take (Suc N) (m_screen s @ replicate (Suc N) (blank_line s))
             = hd (m_screen s) # take N (tl (m_screen s) @ [blank_line s] @ replicate N (blank_line s))"
    using ne by (cases "m_screen s") simp_all
  have "m_backlog s' = keep_last ?k (m_backlog s @ take (Suc N) (m_screen s @ replicate (Suc N) (blank_line s)))"
    unfolding s'(2) bl b1 ev
    using keep_last_append_keep_last [of ?k "m_backlog s @ [hd (m_screen s)]"]
    by simp
  moreover have "repeat_res (Suc N) vt_scroll_up s = Inr s'"
    using st s'(1) by (simp add: bind_res_def)
  ultimately show ?case by blast
qed


section \<open>Resizing\<close>


lemma pad_loop_ok:
  "0 \<le> x \<Longrightarrow> w \<le> int (length line) \<Longrightarrow>
   \<exists>l. pad_loop x w sp line = Inr l \<and> length l = length line"
proof (induction x w sp line rule: pad_loop.induct)
  case (1 x w sp line)
  show ?case
  proof (cases "x < w")
    case False
    then show ?thesis by (subst pad_loop.simps) simp
  next
    case True
    have s: "set_int line x sp = Inr (line[nat x := sp])"
      using True "1.prems" by (simp add: set_int_def)
    from "1.IH" [OF True s] "1.prems"
    obtain l where "pad_loop (x + 1) w sp (line[nat x := sp]) = Inr l" "length l = length line"
      by auto
    then show ?thesis using True s by (subst pad_loop.simps) simp
  qed
qed

lemma widen_line_ok:
  assumes "0 \<le> width" and "0 \<le> old_width"
  shows "\<exists>l. widen_line width old_width line = Inr l \<and> length (cells l) = nat width"
proof -
  let ?cs = "take (nat width) (cells line) @ replicate (nat width - length (cells line)) vtAttr_default"
  have r: "resize_cells width (cells line) = Inr ?cs" using assms(1) by (simp add: resize_cells_def)
  have len: "length ?cs = nat width" by auto
  show ?thesis
  proof (cases "width > old_width")
    case False
    then show ?thesis using r len by (simp add: widen_line_def bind_res_def)
  next
    case True
    then have a: "at_int ?cs 0 = Inr (?cs ! 0)" using assms(2) len by (simp add: at_int_def)
    have "width \<le> int (length ?cs)" using len assms(1) by simp
    from pad_loop_ok [OF assms(2) this, of "space_of (?cs ! 0) 32"]
    obtain l where l: "pad_loop old_width width (space_of (?cs ! 0) 32) ?cs = Inr l"
       "length l = length ?cs" by blast
    have "widen_line width old_width line = Inr (line\<lparr>cells := l\<rparr>)"
      unfolding widen_line_def r using True a l(1) by (simp add: bind_res_def)
    then show ?thesis using l(2) len by simp
  qed
qed

lemma resize_rows_ok:
  "0 \<le> y \<Longrightarrow> count \<le> int (length rows) \<Longrightarrow> 0 \<le> width \<Longrightarrow> 0 \<le> old_width \<Longrightarrow>
   \<exists>rows'. resize_rows y count width old_width rows = Inr rows' \<and> length rows' = length rows \<and>
      (\<forall>i. i < length rows \<longrightarrow>
         (if y \<le> int i \<and> int i < count then length (cells (rows' ! i)) = nat width
          else rows' ! i = rows ! i))"
proof (induction y count width old_width rows rule: resize_rows.induct)
  case (1 y count width old_width rows)
  show ?case
  proof (cases "y < count")
    case False
    then show ?thesis by (subst resize_rows.simps) auto
  next
    case True
    have a: "at_int rows y = Inr (rows ! nat y)"
      using True "1.prems" by (simp add: at_int_def)
    from widen_line_ok [OF "1.prems"(3,4), of "rows ! nat y"]
    obtain l where l: "widen_line width old_width (rows ! nat y) = Inr l"
        "length (cells l) = nat width" by blast
    from "1.IH" [OF True a l(1)] "1.prems"
    obtain rows' where r: "resize_rows (y + 1) count width old_width (rows[nat y := l]) = Inr rows'"
       "length rows' = length rows"
       "\<forall>i. i < length rows \<longrightarrow>
         (if y + 1 \<le> int i \<and> int i < count then length (cells (rows' ! i)) = nat width
          else rows' ! i = rows[nat y := l] ! i)"
      by auto
    have e: "resize_rows y count width old_width rows = Inr rows'"
      using True a l(1) r(1) by (subst resize_rows.simps) simp
    have "\<forall>i. i < length rows \<longrightarrow>
         (if y \<le> int i \<and> int i < count then length (cells (rows' ! i)) = nat width
          else rows' ! i = rows ! i)"
    proof (intro allI impI)
      fix i assume i: "i < length rows"
      show "if y \<le> int i \<and> int i < count then length (cells (rows' ! i)) = nat width
          else rows' ! i = rows ! i"
      proof (cases "int i = y")
        case True
        then have "i = nat y" by simp
        then show ?thesis using r(3) i l(2) True \<open>y < count\<close> by (auto simp: nth_list_update)
      next
        case False
        then have "i \<noteq> nat y" using "1.prems"(1) by auto
        then show ?thesis using r(3) i False by (auto simp: nth_list_update)
      qed
    qed
    with e r(2) show ?thesis by blast
  qed
qed

lemma shrink_rows_ok:
  "m_height s - height - y \<le> int (length (m_screen s)) \<Longrightarrow>
   \<exists>s'. shrink_rows y height s = Inr s' \<and> same_settings s s' \<and> m_height s' = m_height s \<and>
        m_screen s' = drop (nat (m_height s - height - y)) (m_screen s)"
proof (induction y height s rule: shrink_rows.induct)
  case (1 y height s)
  show ?case
  proof (cases "y < m_height s - height")
    case False
    then show ?thesis by (subst shrink_rows.simps) (simp add: same_settings_def)
  next
    case True
    then obtain l rest where c: "m_screen s = l # rest" using "1.prems"
      by (cases "m_screen s") auto
    let ?s1 = "add_backlog l (s\<lparr>m_screen := rest\<rparr>)"
    have p: "m_height ?s1 - height - (y + 1) \<le> int (length (m_screen ?s1))"
      using "1.prems" c by simp
    from "1.IH" [OF True c p]
    obtain s' where s': "shrink_rows (y + 1) height ?s1 = Inr s'" "same_settings ?s1 s'"
        "m_height s' = m_height ?s1"
        "m_screen s' = drop (nat (m_height ?s1 - height - (y + 1))) (m_screen ?s1)"
      by blast
    have e: "shrink_rows y height s = Inr s'"
      using True c s'(1) by (subst shrink_rows.simps) simp
    have n: "nat (m_height s - height - y) = Suc (nat (m_height s - height - (y + 1)))"
      using True by simp
    have "m_screen s' = drop (nat (m_height s - height - y)) (m_screen s)"
      unfolding n c using s'(4) by simp
    moreover have "same_settings s s'"
      using s'(2) by (simp add: same_settings_def add_backlog_def Let_def)
    moreover have "m_height s' = m_height s" using s'(3) by simp
    ultimately show ?thesis using e by blast
  qed
qed

lemma grow_rows_ok:
  "same_settings s (grow_rows height s) \<and>
   m_height (grow_rows height s) \<le> max height (m_height s) \<and>
   m_height s \<le> m_height (grow_rows height s) \<and>
   int (length (m_screen (grow_rows height s))) - m_height (grow_rows height s)
     = int (length (m_screen s)) - m_height s"
proof (induction height s rule: grow_rows.induct)
  case (1 height s)
  show ?case
  proof (cases "height > m_height s \<and> m_backlog s \<noteq> []")
    case False
    have g: "grow_rows height s = s"
      by (subst grow_rows.simps) (simp only: if_not_P [OF False])
    show ?thesis unfolding g by (simp add: same_settings_def)
  next
    case True
    let ?s1 = "s\<lparr>m_screen := last (m_backlog s) # m_screen s,
                m_backlog := butlast (m_backlog s), m_height := m_height s + 1\<rparr>"
    have g: "grow_rows height s = grow_rows height ?s1"
      using True by (subst grow_rows.simps) simp
    show ?thesis unfolding g using "1.IH" [OF True] True
      by (auto simp: same_settings_def)
  qed
qed

lemma term_set_size_dims:
  assumes "screen_ok s" and "1 \<le> m_deccolm s"
  shows "\<exists>s'. term_set_size w h s = Inr s' \<and>
           m_width s' = (if w \<le> 0 then m_deccolm s else w) \<and>
           m_height s' = (if h \<le> 0 then 25 else h) \<and>
           m_deccolm s' = m_width s' \<and> m_top s' = 0 \<and> m_bottom s' = m_height s' \<and>
           length (m_screen s') = nat (m_height s') \<and>
           m_tabstop s' = m_tabstop s"
proof -
  define w' where "w' = (if w \<le> 0 then m_deccolm s else w)"
  define h' where "h' = (if h \<le> 0 then 25 else h)"
  have w: "1 \<le> w'" "0 \<le> w'" "\<not> w' < 0" using assms(2) by (auto simp: w'_def)
  have hh: "1 \<le> h'" by (auto simp: h'_def)
  have sh: "1 \<le> m_width s" "0 \<le> m_width s" "1 \<le> m_height s"
     "int (length (m_screen s)) = m_height s"
    using assms(1) by (simp_all add: screen_ok_def)
  from resize_rows_ok [of 0 "m_height s" "m_screen s" w' "m_width s"] sh w
  obtain scr where scr: "resize_rows 0 (m_height s) w' (m_width s) (m_screen s) = Inr scr"
     "length scr = length (m_screen s)" by auto
  from resize_rows_ok [of 0 "int (length (m_backlog s))" "m_backlog s" w' "m_width s"] sh w
  obtain bl where bl: "resize_rows 0 (int (length (m_backlog s))) w' (m_width s) (m_backlog s) = Inr bl"
    by auto
  define s1 where "s1 = s\<lparr>m_screen := scr, m_backlog := bl\<rparr>"
  have s1: "m_height s1 = m_height s" "m_screen s1 = scr" "same_settings s s1"
    by (simp_all add: s1_def same_settings_def)
  have e1: "term_set_size w h s =
      bind_res (if h' < m_height s1 then shrink_rows 0 h' s1 else Inr s1) (\<lambda>s2.
         let s3 = grow_rows h' s2
         in if m_height s3 < h' \<and> w' < 0 then Inl OutOfRange
            else Inr (s3\<lparr>m_screen := m_screen s3
                                      @ replicate (nat (h' - m_height s3)) (vtLine_new w' (m_def s3)),
                         m_deccolm := w', m_width := w', m_height := h',
                         m_top := 0, m_bottom := h'\<rparr>))"
    unfolding term_set_size_def Let_def w'_def [symmetric] h'_def [symmetric] scr(1) bl s1_def
    by (simp only: bind_res_def sum.case)
  have "\<exists>s2. (if h' < m_height s1 then shrink_rows 0 h' s1 else Inr s1) = Inr s2 \<and>
          same_settings s s2 \<and> m_height s2 = m_height s \<and>
          int (length (m_screen s2)) = min h' (m_height s)"
  proof (cases "h' < m_height s1")
    case False
    then show ?thesis using scr(2) sh s1 by simp
  next
    case True
    have "m_height s1 - h' - 0 \<le> int (length (m_screen s1))" using scr(2) sh hh s1 by simp
    from shrink_rows_ok [OF this]
    obtain s2 where s2: "shrink_rows 0 h' s1 = Inr s2" "same_settings s1 s2"
       "m_height s2 = m_height s1" "m_screen s2 = drop (nat (m_height s1 - h' - 0)) (m_screen s1)"
      by blast
    have "int (length (m_screen s2)) = min h' (m_height s)"
      using s2(4) scr(2) sh True hh s1 by simp
    moreover have "same_settings s s2" using s2(2) s1(3) by (simp add: same_settings_def)
    ultimately show ?thesis using s2(1,3) True s1(1) by simp
  qed
  then obtain s2 where s2: "(if h' < m_height s1 then shrink_rows 0 h' s1 else Inr s1) = Inr s2"
     "same_settings s s2" "m_height s2 = m_height s"
     "int (length (m_screen s2)) = min h' (m_height s)" by blast
  define s3 where "s3 = grow_rows h' s2"
  have g: "same_settings s2 s3" "m_height s3 \<le> max h' (m_height s2)" "m_height s2 \<le> m_height s3"
     "int (length (m_screen s3)) - m_height s3 = int (length (m_screen s2)) - m_height s2"
    using grow_rows_ok [of s2 h'] by (simp_all add: s3_def)
  have s3: "same_settings s s3" using g(1) s2(2) by (simp add: same_settings_def)
  have "int (length (m_screen s3)) + int (nat (h' - m_height s3)) = h'"
    using g(2,3,4) s2(3,4) by (cases "h' < m_height s") (simp_all add: min_def max_def)
  then have "int (length (m_screen s3) + nat (h' - m_height s3)) = h'"
    by (simp only: of_nat_add)
  then have "length (m_screen s3) + nat (h' - m_height s3) = nat h'"
    by (metis nat_int)
  then have len: "length (m_screen s3 @ replicate (nat (h' - m_height s3)) (vtLine_new w' (m_def s3)))
           = nat h'"
    by (simp only: length_append length_replicate)
  define s' where "s' = s3\<lparr>m_screen := m_screen s3 @ replicate (nat (h' - m_height s3)) (vtLine_new w' (m_def s3)),
              m_deccolm := w', m_width := w', m_height := h', m_top := 0, m_bottom := h'\<rparr>"
  have e: "term_set_size w h s = Inr s'"
    unfolding e1 s2(1) using w(3) by (simp add: bind_res_def s3_def s'_def Let_def)
  have f: "m_tabstop s' = m_tabstop s" "m_width s' = w'" "m_height s' = h'" "m_deccolm s' = w'"
     "m_top s' = 0" "m_bottom s' = h'" "length (m_screen s') = nat h'"
    using s3 len by (simp_all add: same_settings_def s'_def)
  show ?thesis
    unfolding w'_def [symmetric] h'_def [symmetric]
    using e f by (intro exI [of _ s']) simp
qed

lemma rows_example_ok: "screen_ok rows_example" "1 \<le> m_deccolm rows_example"
  by (simp_all add: rows_example_def example_term_def screen_ok_def list_all_length)

section \<open>Erase character\<close>



section \<open>The clamp invariant of cursor movement\<close>




section \<open>The scrollback bound\<close>

text \<open>
  Claim C4. On a well-formed screen whose scroll region spans the whole screen, with a
  scrollback within its bound \<open>m_backlog_max\<close>, scrolling up \<open>N\<close> times with \<open>N\<close> greater
  than the bound returns normally and leaves a scrollback of exactly \<open>m_backlog_max\<close> rows:
  the last \<open>m_backlog_max\<close> of the \<open>N\<close> evicted rows, oldest first. The evicted rows are
  the rows of the page from the top, followed by the blank rows scrolled in. When the
  scroll region does not span the whole screen, \<open>vt_scroll_up\<close> leaves the scrollback as
  it is.
\<close>

theorem scrollback_bounded_fifo:
  assumes "screen_ok s" and "full_region s"
    and "0 \<le> m_backlog_max s" and "int (length (m_backlog s)) \<le> m_backlog_max s"
    and "nat (m_backlog_max s) < N"
  shows "(\<exists>s'. repeat_res N vt_scroll_up s = Inr s' \<and>
              int (length (m_backlog s')) = m_backlog_max s \<and>
              m_backlog s' = drop (N - nat (m_backlog_max s))
                               (take N (m_screen s @ replicate N (blank_line s))))
       \<and> (screen_ok t \<and> region_ok t \<and> \<not> full_region t \<longrightarrow>
            (\<exists>t'. vt_scroll_up t = Inr t' \<and> m_backlog t' = m_backlog t))"
proof -
  let ?k = "nat (m_backlog_max s)"
  let ?E = "take N (m_screen s @ replicate N (blank_line s))"
  from scroll_up_n_backlog [OF assms(1-4), of N]
  obtain s' where s': "repeat_res N vt_scroll_up s = Inr s'"
     "m_backlog s' = keep_last ?k (m_backlog s @ ?E)" by blast
  have lE: "length ?E = N" by simp
  then have "keep_last ?k (m_backlog s @ ?E) = drop (N - ?k) ?E"
    using assms(5) keep_last_append_long [of ?k ?E "m_backlog s"] by simp
  then have b: "m_backlog s' = drop (N - ?k) ?E" using s'(2) by (simp only:)
  have "length (m_backlog s') = N - (N - ?k)" unfolding b length_drop lE ..
  then have "length (m_backlog s') = ?k" using assms(5) by simp
  then have "int (length (m_backlog s')) = m_backlog_max s" using assms(3) by simp
  with s'(1) b have first: "\<exists>s'. repeat_res N vt_scroll_up s = Inr s' \<and>
              int (length (m_backlog s')) = m_backlog_max s \<and>
              m_backlog s' = drop (N - ?k) ?E" by blast
  have second: "screen_ok t \<and> region_ok t \<and> \<not> full_region t \<longrightarrow>
            (\<exists>t'. vt_scroll_up t = Inr t' \<and> m_backlog t' = m_backlog t)"
  proof
    assume a: "screen_ok t \<and> region_ok t \<and> \<not> full_region t"
    then have c: "\<not> (m_top t = 0 \<and> m_height t = m_bottom t)" by (simp add: full_region_def)
    have "vt_scroll_up t = Inr (t\<lparr>m_screen := scrolled_up t\<rparr>)"
      using a vt_scroll_up_ok [of t] unfolding if_not_P [OF c] by blast
    then show "\<exists>t'. vt_scroll_up t = Inr t' \<and> m_backlog t' = m_backlog t" by simp
  qed
  from first second show ?thesis by blast
qed

theorem scrollback_bounded_fifo_witness:
  "screen_ok fifo_example \<and> full_region fifo_example \<and> 0 \<le> m_backlog_max fifo_example \<and>
   int (length (m_backlog fifo_example)) \<le> m_backlog_max fifo_example \<and>
   nat (m_backlog_max fifo_example) < 2 \<and>
   (\<exists>s'. repeat_res 2 vt_scroll_up fifo_example = Inr s' \<and> int (length (m_backlog s')) = 1 \<and>
         m_backlog s' = [\<lparr>cells = [def_att], decdwl = True, decdhl = Single_height\<rparr>]) \<and>
   screen_ok region_example \<and> region_ok region_example \<and> \<not> full_region region_example \<and>
   (\<exists>t'. vt_scroll_up region_example = Inr t' \<and> m_backlog t' = [])"
proof -
  have h: "screen_ok fifo_example" "full_region fifo_example" "0 \<le> m_backlog_max fifo_example"
     "int (length (m_backlog fifo_example)) \<le> m_backlog_max fifo_example"
     "nat (m_backlog_max fifo_example) < 2"
    by (simp_all add: fifo_example_def example_term_def screen_ok_def full_region_def)
  have g: "screen_ok region_example" "region_ok region_example" "\<not> full_region region_example"
    by (simp_all add: region_example_def example_term_def screen_ok_def region_ok_def
        full_region_def list_all_length)
  have v: "m_backlog_max fifo_example = 1" "m_backlog region_example = []"
      "drop (2 - nat 1) (take 2 (m_screen fifo_example @ replicate 2 (blank_line fifo_example)))
         = [\<lparr>cells = [def_att], decdwl = True, decdhl = Single_height\<rparr>]"
    by (simp_all add: fifo_example_def region_example_def example_term_def)
  from scrollback_bounded_fifo [OF h, of region_example] h g
  show ?thesis unfolding v by blast
qed

section \<open>Line feed at the bottom of a scroll region\<close>



section \<open>Resizing to degenerate dimensions\<close>

text \<open>
  Claim C6, as the code has it. On a well-formed screen with a positive DECCOLM column
  count, \<open>term_set_size\<close> returns normally for every pair of arguments, and a degenerate
  argument is replaced rather than rejected: a column count of zero or less becomes
  \<open>m_deccolm\<close>, a row count of zero or less becomes 25, and the engine ends with those
  dimensions. Only \<open>term_set_rows\<close> rejects a row count of zero or less and leaves the
  state as it is.
\<close>

theorem resize_substitutes_defaults:
  assumes "screen_ok s" and "1 \<le> m_deccolm s"
  shows "(\<exists>s'. term_set_size w h s = Inr s' \<and>
              m_width s' = (if w \<le> 0 then m_deccolm s else w) \<and>
              m_height s' = (if h \<le> 0 then 25 else h))
       \<and> (h \<le> 0 \<longrightarrow> term_set_rows h s = Inr s)"
proof -
  from term_set_size_dims [OF assms, of w h]
  have "\<exists>s'. term_set_size w h s = Inr s' \<and>
              m_width s' = (if w \<le> 0 then m_deccolm s else w) \<and>
              m_height s' = (if h \<le> 0 then 25 else h)" by blast
  moreover have "h \<le> 0 \<longrightarrow> term_set_rows h s = Inr s" by (simp add: term_set_rows_def)
  ultimately show ?thesis by blast
qed

theorem resize_substitutes_defaults_witness:
  "screen_ok rows_example \<and> 1 \<le> m_deccolm rows_example \<and>
   m_width rows_example = 1 \<and> m_height rows_example = 26 \<and>
   (\<exists>s'. term_set_size 0 0 rows_example = Inr s' \<and> m_width s' = 80 \<and> m_height s' = 25) \<and>
   term_set_rows 0 rows_example = Inr rows_example"
proof -
  have f: "m_deccolm rows_example = 80" "m_width rows_example = 1" "m_height rows_example = 26"
    by (simp_all add: rows_example_def example_term_def)
  from resize_substitutes_defaults [OF rows_example_ok, of 0 0] rows_example_ok f
  show ?thesis by simp
qed

text \<open>
  Claim C6 as stated fails: a terminal of twenty-six rows resized to zero rows ends with
  twenty-five rows, not with the twenty-six it had.
\<close>

theorem resize_zero_rows_counterexample:
  "result_dims (term_set_size 1 0 rows_example) = Some (1, 25) \<and>
   (m_width rows_example, m_height rows_example) = (1, 26)"
proof -
  from term_set_size_dims [OF rows_example_ok, of 1 0]
  obtain s' where "term_set_size 1 0 rows_example = Inr s'" "m_width s' = 1" "m_height s' = 25"
    by auto
  then have "result_dims (term_set_size 1 0 rows_example) = Some (1, 25)"
    by (simp add: result_dims_def)
  moreover have "(m_width rows_example, m_height rows_example) = (1, 26)"
    by (simp add: rows_example_def example_term_def)
  ultimately show ?thesis by blast
qed

end
